theory Spec2Isabelle
  imports Complex_Main "HOL-Library.Sublist"
begin

section \<open>Python values\<close>

text \<open>
  A Python \<open>str\<close> is a sequence of Unicode code points and \<open>len\<close> counts code points,
  so text that comes from outside the program (documents, model completions, JSON keys)
  is a list of code points. The labels that the program itself returns are plain ASCII
  literals and are kept as HOL strings.
\<close>

type_synonym pystr = "nat list"

definition u :: "string \<Rightarrow> pystr" where
  "u s = map of_char s"

section \<open>Score buckets\<close>

subsection \<open>app/run_analysis.py: get_overall_recommendation\<close>

text \<open>
  The score is the mean of the impact scores of one company. The four cut-offs
  \<open>-1.5, -0.5, 0.5, 1.5\<close> are exact binary fractions and a float comparison is exact,
  so the function is modelled on the real value of the score.
\<close>

definition get_overall_recommendation :: "real \<Rightarrow> string" where
  "get_overall_recommendation score =
     (if score \<le> - 3 / 2 then ''SELL''
      else if score \<le> - 1 / 2 then ''REDUCE''
      else if score \<le> 1 / 2 then ''HOLD''
      else if score \<le> 3 / 2 then ''BUY''
      else ''STRONG_BUY'')"

subsection \<open>dashboard/app.py: SENTIMENT_CONFIG and get_sentiment_from_score\<close>

text \<open>
  \<open>SENTIMENT_CONFIG\<close> is a dict; only its \<open>range\<close> entries are read here. The loop
  visits the items in insertion order and returns at the first range that holds the score.
\<close>

definition SENTIMENT_CONFIG :: "(string \<times> real \<times> real) list" where
  "SENTIMENT_CONFIG =
     [(''VERY_NEGATIVE'', (- 3, - 3 / 2)),
      (''NEGATIVE'', (- 3 / 2, - 1 / 2)),
      (''NEUTRAL'', (- 1 / 2, 1 / 2)),
      (''POSITIVE'', (1 / 2, 3 / 2)),
      (''VERY_POSITIVE'', (3 / 2, 3))]"

fun first_range :: "(string \<times> real \<times> real) list \<Rightarrow> real \<Rightarrow> string option" where
  "first_range [] score = None"
| "first_range ((sentiment, (lo, hi)) # rest) score =
     (if lo \<le> score \<and> score < hi then Some sentiment else first_range rest score)"

definition get_sentiment_from_score :: "real \<Rightarrow> string" where
  "get_sentiment_from_score score =
     (case first_range SENTIMENT_CONFIG score of
        Some sentiment \<Rightarrow> sentiment
      | None \<Rightarrow> if score \<ge> 3 / 2 then ''VERY_POSITIVE'' else ''VERY_NEGATIVE'')"

section \<open>Strings and JSON values\<close>

text \<open>
  \<open>str.strip()\<close> removes the leading and trailing characters for which
  \<open>str.isspace\<close> holds; \<open>is_space\<close> lists those code points.
\<close>

definition is_space :: "nat \<Rightarrow> bool" where
  "is_space c =
     (c \<in> {9, 10, 11, 12, 13, 28, 29, 30, 31, 32, 133, 160, 5760,
            8232, 8233, 8239, 8287, 12288}
      \<or> (8192 \<le> c \<and> c \<le> 8202))"

definition strip :: "pystr \<Rightarrow> pystr" where
  "strip s = rev (dropWhile is_space (rev (dropWhile is_space s)))"

definition startswith :: "pystr \<Rightarrow> pystr \<Rightarrow> bool" where
  "startswith s p = prefix p s"

definition endswith :: "pystr \<Rightarrow> pystr \<Rightarrow> bool" where
  "endswith s p = suffix p s"

text \<open>
  What \<open>json.loads\<close> returns. An object is a dict: its items in insertion order, read
  by key with \<open>dict_get\<close>.
\<close>

datatype json =
    JNull
  | JBool bool
  | JInt int
  | JFloat real
  | JStr pystr
  | JArr "json list"
  | JObj "(pystr \<times> json) list"

text \<open>
  \<open>json.loads\<close> belongs to the standard library. The functions that call it take the
  decoder as the parameter \<open>loads\<close>; \<open>None\<close> stands for \<open>json.JSONDecodeError\<close>.
\<close>

type_synonym decoder = "pystr \<Rightarrow> json option"

subsection \<open>extraction_mod/extract_10k_v2.py: clean_json_response\<close>

definition clean_json_response :: "pystr \<Rightarrow> pystr" where
  "clean_json_response text0 =
     (let text1 = strip text0;
          text2 = (if startswith text1 (u ''```json'') then drop 7 text1
                   else if startswith text1 (u ''```'') then drop 3 text1
                   else text1);
          text3 = (if endswith text2 (u ''```'') then take (length text2 - 3) text2
                   else text2)
      in strip text3)"

text \<open>Lines 225-226 of \<open>call_bedrock\<close>: clean, then decode.\<close>

definition parse_completion_v2 :: "decoder \<Rightarrow> pystr \<Rightarrow> json option" where
  "parse_completion_v2 loads response_text = loads (clean_json_response response_text)"

subsection \<open>app/run_analysis.py: the cleaning inside call_bedrock\<close>

text \<open>
  Lines 190-199. Here the two tests for a leading fence are separate \<open>if\<close>s, so a second
  fence left after \<open>```json\<close> is removed too; the final \<open>strip\<close> is applied at the call
  of \<open>json.loads\<close>.
\<close>

definition clean_markdown :: "pystr \<Rightarrow> pystr" where
  "clean_markdown response_text0 =
     (let t1 = strip response_text0;
          t2 = (if startswith t1 (u ''```json'') then drop 7 t1 else t1);
          t3 = (if startswith t2 (u ''```'') then drop 3 t2 else t2);
          t4 = (if endswith t3 (u ''```'') then take (length t3 - 3) t3 else t3)
      in t4)"

definition parse_completion :: "decoder \<Rightarrow> pystr \<Rightarrow> json option" where
  "parse_completion loads response_text = loads (strip (clean_markdown response_text))"

text \<open>
  The completion \<open>```json\n{"a":1}\n```\<close>, and a decoder that knows the single document
  \<open>{"a":1}\<close>, to run the functions on.
\<close>

definition fenced_example :: pystr where
  "fenced_example = u (''```json'' @ [CHR 0x0A] @ ''{\"a\":1}'' @ [CHR 0x0A] @ ''```'')"

text \<open>
  The same document behind a plain fence, behind a leading fence only (with and without
  the language tag), before a trailing fence only, behind a \<open>```json\<close> fence followed by
  a second fence, and behind a plain fence with white space around it.
\<close>

definition body_between_lines :: pystr where
  "body_between_lines = u ([CHR 0x0A] @ ''{\"a\":1}'' @ [CHR 0x0A])"

definition body_after_line :: pystr where
  "body_after_line = u ([CHR 0x0A] @ ''{\"a\":1}'')"

definition body_before_line :: pystr where
  "body_before_line = u (''{\"a\":1}'' @ [CHR 0x0A])"

definition plain_fenced_example :: pystr where
  "plain_fenced_example = u ''```'' @ body_between_lines @ u ''```''"

definition open_json_fence_example :: pystr where
  "open_json_fence_example = u ''```json'' @ body_after_line"

definition open_plain_fence_example :: pystr where
  "open_plain_fence_example = u ''```'' @ body_after_line"

definition closing_fence_example :: pystr where
  "closing_fence_example = body_before_line @ u ''```''"

definition double_fence_example :: pystr where
  "double_fence_example = u ''```json'' @ u ''```'' @ body_between_lines @ u ''```''"

definition leading_space :: pystr where
  "leading_space = u ('' '' @ [CHR 0x0A])"

definition trailing_space :: pystr where
  "trailing_space = u ([CHR 0x0A] @ ''  '')"

definition padded_example :: pystr where
  "padded_example = leading_space @ plain_fenced_example @ trailing_space"

definition demo_loads :: decoder where
  "demo_loads s = (if s = u ''{\"a\":1}'' then Some (JObj [(u ''a'', JInt 1)]) else None)"

section \<open>Exceptions and dict access\<close>

text \<open>
  The exceptions that the modelled code can meet. \<open>ServiceError\<close> stands for whatever
  the service client raises (time-out, throttling, a refused request), with its message.
  A function that can raise returns \<open>py_error + 'a\<close>, the exception on the left.
\<close>

datatype py_error =
    JSONDecodeError
  | AttributeError
  | KeyError
  | IndexError
  | TypeError
  | NameError string
  | UnboundLocalError string
  | ZeroDivisionError
  | BinasciiError
  | ServiceError pystr

definition seq :: "py_error + 'a \<Rightarrow> ('a \<Rightarrow> py_error + 'b) \<Rightarrow> py_error + 'b" where
  "seq x f = (case x of Inl e \<Rightarrow> Inl e | Inr v \<Rightarrow> f v)"

text \<open>
  \<open>x.get(key, default)\<close> and \<open>x.keys()\<close>: on anything but a dict the attribute does not
  exist. \<open>x.get(key)\<close> is \<open>dict_get x key JNull\<close>.
\<close>

definition dict_get :: "json \<Rightarrow> pystr \<Rightarrow> json \<Rightarrow> py_error + json" where
  "dict_get x key dflt =
     (case x of
        JObj items \<Rightarrow> (case map_of items key of Some v \<Rightarrow> Inr v | None \<Rightarrow> Inr dflt)
      | _ \<Rightarrow> Inl AttributeError)"

definition dict_keys :: "json \<Rightarrow> py_error + pystr list" where
  "dict_keys x = (case x of JObj items \<Rightarrow> Inr (map fst items) | _ \<Rightarrow> Inl AttributeError)"

fun join :: "pystr \<Rightarrow> pystr list \<Rightarrow> pystr" where
  "join sep [] = []"
| "join sep [x] = x"
| "join sep (x # y # ys) = x @ sep @ join sep (y # ys)"

text \<open>The truth value that \<open>if value:\<close> tests.\<close>

fun truthy :: "json \<Rightarrow> bool" where
  "truthy JNull = False"
| "truthy (JBool b) = b"
| "truthy (JInt i) = (i \<noteq> 0)"
| "truthy (JFloat r) = (r \<noteq> 0)"
| "truthy (JStr s) = (s \<noteq> [])"
| "truthy (JArr xs) = (xs \<noteq> [])"
| "truthy (JObj items) = (items \<noteq> [])"

section \<open>The canonical profile\<close>

subsection \<open>extraction_mod/extract_10k_v2.py: normalize_structure\<close>

text \<open>
  The dict display is evaluated entry by entry. Every lookup that the source repeats
  (\<open>data.get('company_info', {})\<close> and the like) has no effect and the same value each
  time, so it is bound once here; the only exception that any of them raises is
  \<open>AttributeError\<close>, whichever comes first.
\<close>

definition normalize_structure :: "json \<Rightarrow> py_error + json" where
  "normalize_structure data =
     seq (dict_get data (u ''company_info'') (JObj [])) (\<lambda>company_info.
     seq (dict_get data (u ''geographic_revenue'') (JObj [])) (\<lambda>geographic_revenue.
     seq (dict_get data (u ''business_segments'') (JObj [])) (\<lambda>business_segments.
     seq (dict_get data (u ''key_financials'') (JObj [])) (\<lambda>key_financials.
     seq (dict_get data (u ''supply_chain'') (JObj [])) (\<lambda>supply_chain.
     seq (dict_get data (u ''metadata'') (JObj [])) (\<lambda>metadata.
     seq (dict_get company_info (u ''name'') JNull) (\<lambda>name.
     seq (dict_get company_info (u ''ticker'') JNull) (\<lambda>ticker.
     seq (dict_get company_info (u ''domicile_country'') JNull) (\<lambda>domicile_country.
     seq (dict_get company_info (u ''sector'') JNull) (\<lambda>sector.
     seq (dict_keys geographic_revenue) (\<lambda>region_names.
     seq (dict_get supply_chain (u ''major_suppliers_industries'') (JArr [])) (\<lambda>suppliers.
     seq (dict_get supply_chain (u ''key_supplier_countries'') (JArr [])) (\<lambda>countries.
     seq (dict_get key_financials (u ''purchase_obligations_usd'') JNull) (\<lambda>obligations.
     seq (dict_get key_financials (u ''r_and_d_expense_usd'') JNull) (\<lambda>r_and_d.
     Inr (JObj
       [(u ''company_info'', company_info),
        (u ''geographic_revenue'', geographic_revenue),
        (u ''business_segments'', business_segments),
        (u ''key_financials'', key_financials),
        (u ''supply_chain'', supply_chain),
        (u ''metadata'', metadata),
        (u ''identity_and_jurisdiction'', JObj
          [(u ''company_name'', name),
           (u ''trading_symbol'', ticker),
           (u ''legal_domicile_country'', domicile_country),
           (u ''sector_industry'', sector)]),
        (u ''geographic_exposure'', JObj
          [(u ''regions'', geographic_revenue),
           (u ''regions_of_activity'', JStr (join (u '', '') region_names))]),
        (u ''business_mix'', JObj
          [(u ''segments'', business_segments)]),
        (u ''supply_chain_and_commitments'', JObj
          [(u ''suppliers_sector_industries'', suppliers),
           (u ''key_countries'', countries),
           (u ''purchase_obligations_usd'', obligations)]),
        (u ''tax_and_innovation'', JObj
          [(u ''r_and_d_expense_usd'', r_and_d)])]))))))))))))))))"

subsection \<open>dashboard/regulatory_utils.py: the geography of format_company_profile\<close>

text \<open>
  Lines 321-333, on the \<open>data\<close> entry of a stored record. The loop reads the five
  fixed-region keys and keeps the regions whose value is true; \<open>geography_parts\<close> holds
  each kept region with its value (the source renders the pair as \<open>"region: value%"\<close>),
  and an empty list is reported as \<open>Not disclosed\<close>.
\<close>

definition REGION_KEYS :: "(pystr \<times> pystr) list" where
  "REGION_KEYS =
     [(u ''Americas'', u ''americas_revenue_share_prct_2024''),
      (u ''Europe'', u ''europe_revenue_share_prct_2024''),
      (u ''China'', u ''china_revenue_share_prct_2024''),
      (u ''Japan'', u ''japan_revenue_share_prct_2024''),
      (u ''Rest of Asia'', u ''restofasia_revenue_share_prct_2024'')]"

fun geography_parts :: "json \<Rightarrow> (pystr \<times> pystr) list \<Rightarrow> py_error + (pystr \<times> json) list" where
  "geography_parts geo [] = Inr []"
| "geography_parts geo ((region, key) # rest) =
     seq (dict_get geo key JNull) (\<lambda>v.
     seq (geography_parts geo rest) (\<lambda>parts.
     Inr (if truthy v then (region, v) # parts else parts)))"

definition profile_geography :: "json \<Rightarrow> py_error + (pystr \<times> json) list" where
  "profile_geography data =
     seq (dict_get data (u ''geographic_exposure'') (JObj [])) (\<lambda>geo.
     geography_parts geo REGION_KEYS)"

subsection \<open>Reading a profile\<close>

text \<open>
  \<open>lookup_path x path\<close> follows keys into nested dicts; \<open>None\<close> when a key is missing or the
  value on the way is not a dict. \<open>normalized_field\<close> reads a field of the profile that
  \<open>normalize_structure\<close> builds, and \<open>section_of\<close> reads a section of the input the way
  \<open>data.get(name, {})\<close> does, with \<open>None\<close> when the entry is there but is not a dict.
\<close>

fun lookup_path :: "json \<Rightarrow> pystr list \<Rightarrow> json option" where
  "lookup_path x [] = Some x"
| "lookup_path (JObj items) (k # ks) = (case map_of items k of Some v \<Rightarrow> lookup_path v ks | None \<Rightarrow> None)"
| "lookup_path x (k # ks) = None"

definition normalized_field :: "json \<Rightarrow> pystr list \<Rightarrow> json option" where
  "normalized_field data path =
     (case normalize_structure data of Inl e \<Rightarrow> None | Inr profile \<Rightarrow> lookup_path profile path)"

definition section_of :: "json \<Rightarrow> pystr \<Rightarrow> (pystr \<times> json) list option" where
  "section_of data name =
     (case data of
        JObj items \<Rightarrow>
          (case map_of items name of
             None \<Rightarrow> Some []
           | Some (JObj entries) \<Rightarrow> Some entries
           | Some other \<Rightarrow> None)
      | _ \<Rightarrow> None)"

definition field_or :: "(pystr \<times> json) list \<Rightarrow> pystr \<Rightarrow> json \<Rightarrow> json" where
  "field_or entries key dflt = (case map_of entries key of Some v \<Rightarrow> v | None \<Rightarrow> dflt)"

definition emea_apac :: json where
  "emea_apac = JObj [(u ''geographic_revenue'', JObj [(u ''EMEA'', JInt 40), (u ''APAC'', JInt 60)])]"

section \<open>Document ingestion and the validation gate\<close>

subsection \<open>dashboard/config.py\<close>

text \<open>
  The keyword list, in the order of the source. The French and Chinese keywords are
  written as code points: the three French words with an accented letter (232 is e
  grave, 233 is e acute) and the twelve Chinese entries.
\<close>

definition REGULATORY_KEYWORDS :: "pystr list" where
  "REGULATORY_KEYWORDS =
     [u ''regulation'', u ''law'', u ''policy'', u ''compliance'', u ''directive'',
      u ''decree'', u ''act'', u ''statute'', u ''ordinance'', u ''legislation'',
      u ''amendment'', u ''requirement'', u ''provision'', u ''enactment'', u ''bill'',
      [114, 232, 103, 108, 101, 109, 101, 110, 116], u ''loi'', u ''politique'',
      [99, 111, 110, 102, 111, 114, 109, 105, 116, 233], [100, 233, 99, 114, 101, 116],
      u ''ordonnance'', [27861], [27861, 24459], [27861, 35268], [35268, 23450],
      [26465, 20363], [25919, 31574], [33021, 28304, 27861],
      [20013, 21326, 20154, 27665, 20849, 21644, 22269], [35268, 31456], [21150, 27861],
      [23454, 26045], [31649, 29702], u ''ley'', u ''reglamento'', u ''decreto'',
      u ''gesetz'', u ''verordnung'']"

definition MIN_DOCUMENT_LENGTH :: nat where
  "MIN_DOCUMENT_LENGTH = 50"

definition MIN_KEYWORD_MATCHES :: nat where
  "MIN_KEYWORD_MATCHES = 1"

subsection \<open>dashboard/regulatory_utils.py: validate_regulatory_document\<close>

text \<open>
  \<open>keyword in text_lower\<close> is the substring test. \<open>str.lower\<close> is the library's and is
  the parameter \<open>lower\<close>. The message of the result is kept as a value that carries the
  numbers formatted into it.
\<close>

definition contains :: "pystr \<Rightarrow> pystr \<Rightarrow> bool" where
  "contains s sub = sublist sub s"

datatype validation_message =
    Document_trop_court nat
  | Pas_assez_de_mots_cles nat nat
  | Document_valide

definition validate_regulatory_document ::
    "(pystr \<Rightarrow> pystr) \<Rightarrow> pystr \<Rightarrow> bool \<times> validation_message" where
  "validate_regulatory_document lower text =
     (if text = [] \<or> length text < MIN_DOCUMENT_LENGTH
      then (False, Document_trop_court MIN_DOCUMENT_LENGTH)
      else
        let text_lower = lower text;
            matches = length (filter (\<lambda>keyword. contains text_lower keyword) REGULATORY_KEYWORDS)
        in if matches < MIN_KEYWORD_MATCHES
           then (False, Pas_assez_de_mots_cles matches MIN_KEYWORD_MATCHES)
           else (True, Document_valide))"

text \<open>\<open>str.lower\<close> on ASCII text, to run the gate on examples.\<close>

definition ascii_lower :: "pystr \<Rightarrow> pystr" where
  "ascii_lower s = map (\<lambda>c. if 65 \<le> c \<and> c \<le> 90 then c + 32 else c) s"

definition text40 :: pystr where
  "text40 = u ''regulationregulationregulationregulation''"

definition text200 :: pystr where
  "text200 = replicate 191 120 @ u ''Directive''"

subsection \<open>dashboard/regulatory_utils.py: parse_any_format\<close>
















section \<open>The gateway: call_bedrock\<close>

text \<open>
  What a call leaves behind: the number of \<open>invoke_model\<close> requests, the arguments of
  \<open>time.sleep\<close> in seconds, the entries of the error log (\<open>log_error(tag, message)\<close>, the
  message being an exception formatted into a fixed text) and the lines printed. The
  error log is taken to be writable: \<open>log_error\<close> itself does not fail.
\<close>

datatype printed_line =
    Bedrock_error py_error
  | Reponse pystr

record world =
  invocations :: nat
  slept :: "nat list"
  error_log :: "(pystr \<times> py_error) list"
  printed :: "printed_line list"

definition sleep :: "nat \<Rightarrow> world \<Rightarrow> world" where
  "sleep seconds w = w\<lparr>slept := slept w @ [seconds]\<rparr>"

definition invoke :: "world \<Rightarrow> world" where
  "invoke w = w\<lparr>invocations := invocations w + 1\<rparr>"

definition log_error :: "pystr \<Rightarrow> py_error \<Rightarrow> world \<Rightarrow> world" where
  "log_error tag e w = w\<lparr>error_log := error_log w @ [(tag, e)]\<rparr>"

definition print_line :: "printed_line \<Rightarrow> world \<Rightarrow> world" where
  "print_line l w = w\<lparr>printed := printed w @ [l]\<rparr>"

text \<open>
  The service is outside the program. For one prompt, \<open>responses k\<close> is what attempt
  \<open>k\<close> (from 0) obtains from \<open>invoke_model\<close> and from reading the envelope
  (\<open>json.loads(response['body'].read())\<close>, then \<open>['content'][0]['text']\<close>): the text of
  the completion, or the exception raised on the way, \<open>JSONDecodeError\<close> when the body
  of the response is not JSON.
\<close>

type_synonym service = "nat \<Rightarrow> py_error + pystr"

subsection \<open>app/run_analysis.py\<close>

definition MAX_RETRIES :: nat where
  "MAX_RETRIES = 2"

text \<open>The body of the \<open>try\<close>, lines 172-200.\<close>

definition attempt :: "decoder \<Rightarrow> py_error + pystr \<Rightarrow> py_error + json" where
  "attempt loads response =
     seq response (\<lambda>response_text.
       case parse_completion loads response_text of
         None \<Rightarrow> Inl JSONDecodeError
       | Some result \<Rightarrow> Inr result)"

text \<open>
  The loop over \<open>range(MAX_RETRIES)\<close>, with the single handler \<open>except Exception\<close>; the
  empty list is the \<open>return None\<close> after the loop. Python's \<open>None\<close> is \<open>JNull\<close>.
\<close>

fun call_bedrock_loop ::
    "decoder \<Rightarrow> service \<Rightarrow> nat list \<Rightarrow> world \<Rightarrow> (py_error + json) \<times> world" where
  "call_bedrock_loop loads responses [] w = (Inr JNull, w)"
| "call_bedrock_loop loads responses (k # rest) w =
     (let w1 = invoke w in
      case attempt loads (responses k) of
        Inr result \<Rightarrow> (Inr result, w1)
      | Inl e \<Rightarrow>
          if k < MAX_RETRIES - 1 then call_bedrock_loop loads responses rest (sleep 1 w1)
          else (Inr JNull, print_line (Bedrock_error e) w1))"

definition call_bedrock :: "decoder \<Rightarrow> service \<Rightarrow> world \<Rightarrow> (py_error + json) \<times> world" where
  "call_bedrock loads responses w = call_bedrock_loop loads responses [0..<MAX_RETRIES] w"

subsection \<open>extraction_mod/extract_10k_v2.py\<close>

definition MAX_RETRIES_v2 :: nat where
  "MAX_RETRIES_v2 = 3"

text \<open>Lines 209-231: the completion is cleaned, decoded and normalised.\<close>

definition attempt_v2 :: "decoder \<Rightarrow> py_error + pystr \<Rightarrow> py_error + json" where
  "attempt_v2 loads response =
     seq response (\<lambda>response_text.
       case parse_completion_v2 loads response_text of
         None \<Rightarrow> Inl JSONDecodeError
       | Some data \<Rightarrow> normalize_structure data)"

text \<open>
  \<open>'throttl' in str(e).lower()\<close>. Only the service's own exceptions carry a free
  message; the messages of the others that can arise here (a missing attribute or key,
  an index out of range) do not hold that word.
\<close>

definition is_throttle :: "(pystr \<Rightarrow> pystr) \<Rightarrow> py_error \<Rightarrow> bool" where
  "is_throttle lower e =
     (case e of ServiceError message \<Rightarrow> contains (lower message) (u ''throttl'') | _ \<Rightarrow> False)"

fun call_bedrock_v2_loop ::
    "(pystr \<Rightarrow> pystr) \<Rightarrow> decoder \<Rightarrow> service \<Rightarrow> nat list \<Rightarrow> world
      \<Rightarrow> (py_error + json) \<times> world" where
  "call_bedrock_v2_loop lower loads responses [] w = (Inr JNull, w)"
| "call_bedrock_v2_loop lower loads responses (retry # rest) w =
     (let w1 = (if retry > 0 then sleep (min (2 ^ retry) 10) w else w);
          w2 = invoke w1
      in case attempt_v2 loads (responses retry) of
           Inr data \<Rightarrow> (Inr data, w2)
         | Inl e \<Rightarrow>
             if e = JSONDecodeError then
               (if retry < MAX_RETRIES_v2 - 1
                then call_bedrock_v2_loop lower loads responses rest w2
                else (Inr JNull, log_error (u ''json'') e w2))
             else
               let w3 = (if is_throttle lower e then sleep (5 * (retry + 1)) w2 else w2)
               in if retry < MAX_RETRIES_v2 - 1
                  then call_bedrock_v2_loop lower loads responses rest w3
                  else (Inr JNull, log_error (u ''bedrock'') e w3))"

definition call_bedrock_v2 ::
    "(pystr \<Rightarrow> pystr) \<Rightarrow> decoder \<Rightarrow> service \<Rightarrow> world \<Rightarrow> (py_error + json) \<times> world" where
  "call_bedrock_v2 lower loads responses w =
     call_bedrock_v2_loop lower loads responses [0..<MAX_RETRIES_v2] w"

text \<open>
  A service to run the gateway on: it answers every attempt with the text \<open>not json\<close>;
  and one that lets the first attempt time out and then answers \<open>{"a":1}\<close>.
\<close>

definition garbage_service :: service where
  "garbage_service k = Inr (u ''not json'')"

definition flaky_service :: service where
  "flaky_service k = (if k = 0 then Inl (ServiceError (u ''Read timed out'')) else Inr (u ''{\"a\":1}''))"

definition world0 :: world where
  "world0 = \<lparr>invocations = 0, slept = [], error_log = [], printed = []\<rparr>"

section \<open>Workers and batches\<close>

text \<open>
  The workers of a batch run in a thread pool and the main thread takes their results
  with \<open>as_completed\<close>. The model runs the workers one after another, in the order in
  which they complete, each as a whole, and then lets the main loop read the outcomes in
  that order; \<open>future.result()\<close> raises again what the worker raised. The pause after
  each completion (\<open>time.sleep\<close> in the main loop) changes no value and is left out.
\<close>

subsection \<open>extraction_mod/extract_10k_v2.py: process_single_10k\<close>

text \<open>
  \<open>EXTRACTION_PROMPT.format(content=text)\<close>, line 329. The template shows its JSON
  example with single braces, so for \<open>str.format\<close> the first replacement field of the
  template is the text between the first \<open>{\<close> and the colon after \<open>"company_info"\<close>;
  the call supplies \<open>content\<close> only, and the lookup of that field raises \<open>KeyError\<close>
  whatever the text is.
\<close>

definition format_extraction_prompt :: "pystr \<Rightarrow> py_error + pystr" where
  "format_extraction_prompt content = Inl KeyError"

record progress =
  success :: nat
  failed :: nat

datatype error_text =
    Empty_extraction
  | Bedrock_failed
  | Str_of py_error

text \<open>
  The dict that the worker returns: with \<open>'success': True\<close> the ticker, the path and the
  data (and a time stamp, left out); with \<open>'success': False\<close> the ticker, the path and the
  error text.
\<close>

datatype result_10k =
    Extracted pystr pystr json
  | Not_extracted pystr pystr error_text

fun is_success :: "result_10k \<Rightarrow> bool" where
  "is_success (Extracted ticker path data) = True"
| "is_success (Not_extracted ticker path error) = False"

definition create_error_result :: "pystr \<Rightarrow> pystr \<Rightarrow> error_text \<Rightarrow> result_10k" where
  "create_error_result ticker path error = Not_extracted ticker path error"

text \<open>
  A task as the worker meets it: the ticker and path of the file, the text that
  \<open>extract_text_smart\<close> returns for it (empty when the extraction failed; the entry
  that it then adds to the error log is not modelled), and the answers of the service to
  the attempts made for it.
\<close>

record task_10k =
  ticker :: pystr
  html_path :: pystr
  extracted_text :: pystr
  service_of :: service

text \<open>The body of the \<open>try\<close>, lines 324-343, and the worker with its handler.\<close>

definition process_single_10k_try ::
    "(pystr \<Rightarrow> pystr) \<Rightarrow> decoder \<Rightarrow> task_10k \<Rightarrow> progress \<times> world
      \<Rightarrow> (py_error + result_10k) \<times> progress \<times> world" where
  "process_single_10k_try lower loads task s =
     (let p = fst s; w = snd s in
      if extracted_text task = []
      then (Inr (create_error_result (ticker task) (html_path task) Empty_extraction),
            p\<lparr>failed := failed p + 1\<rparr>, w)
      else
        case format_extraction_prompt (extracted_text task) of
          Inl e \<Rightarrow> (Inl e, p, w)
        | Inr prompt \<Rightarrow>
            (case call_bedrock_v2 lower loads (service_of task) w of
               (Inl e, w1) \<Rightarrow> (Inl e, p, w1)
             | (Inr data, w1) \<Rightarrow>
                 if truthy data
                 then (Inr (Extracted (ticker task) (html_path task) data),
                       p\<lparr>success := success p + 1\<rparr>, w1)
                 else (Inr (create_error_result (ticker task) (html_path task) Bedrock_failed),
                       p\<lparr>failed := failed p + 1\<rparr>, w1)))"

definition process_single_10k ::
    "(pystr \<Rightarrow> pystr) \<Rightarrow> decoder \<Rightarrow> task_10k \<Rightarrow> progress \<times> world
      \<Rightarrow> (py_error + result_10k) \<times> progress \<times> world" where
  "process_single_10k lower loads task s =
     (case process_single_10k_try lower loads task s of
        (Inr result, p, w) \<Rightarrow> (Inr result, p, w)
      | (Inl e, p, w) \<Rightarrow>
          (Inr (create_error_result (ticker task) (html_path task) (Str_of e)),
           p\<lparr>failed := failed p + 1\<rparr>, log_error (ticker task) e w))"

text \<open>
  The main loop of \<open>extract_all_10k\<close>, lines 409-424: every outcome is appended,
  failures included.
\<close>

fun run_workers_10k ::
    "(pystr \<Rightarrow> pystr) \<Rightarrow> decoder \<Rightarrow> task_10k list \<Rightarrow> progress \<times> world
      \<Rightarrow> (py_error + result_10k) list \<times> progress \<times> world" where
  "run_workers_10k lower loads [] s = ([], s)"
| "run_workers_10k lower loads (task # tasks) s =
     (case process_single_10k lower loads task s of
        (outcome, s1) \<Rightarrow>
          (case run_workers_10k lower loads tasks s1 of
             (outcomes, s2) \<Rightarrow> (outcome # outcomes, s2)))"

fun collect_10k :: "(py_error + result_10k) list \<Rightarrow> result_10k list \<Rightarrow> py_error + result_10k list" where
  "collect_10k [] results = Inr results"
| "collect_10k (Inl e # outcomes) results = Inl e"
| "collect_10k (Inr result # outcomes) results = collect_10k outcomes (results @ [result])"

definition extract_all_10k_results ::
    "(pystr \<Rightarrow> pystr) \<Rightarrow> decoder \<Rightarrow> task_10k list
      \<Rightarrow> (py_error + result_10k list) \<times> progress \<times> world" where
  "extract_all_10k_results lower loads tasks =
     (case run_workers_10k lower loads tasks (\<lparr>success = 0, failed = 0\<rparr>, world0) of
        (outcomes, s) \<Rightarrow> (collect_10k outcomes [], s))"

subsection \<open>dashboard/app.py: call_bedrock\<close>

text \<open>
  Lines 97-150. The local variable \<open>response_text\<close> is bound at line 119, once the
  envelope has been read, and rebound by the cleaning; it keeps its value from one attempt
  to the next. The handler of \<open>json.JSONDecodeError\<close> prints the first 300 characters of
  it: when the variable is still unbound, reading it raises \<open>UnboundLocalError\<close> inside
  the handler, which nothing in the function catches.
\<close>

definition handle_dashboard ::
    "py_error \<Rightarrow> pystr option \<Rightarrow> nat \<Rightarrow> world
      \<Rightarrow> ((py_error + json) \<times> world) + world" where
  "handle_dashboard e response_text k w =
     (if e = JSONDecodeError then
        (case response_text of
           None \<Rightarrow> Inl (Inl (UnboundLocalError ''response_text''), w)
         | Some t \<Rightarrow>
             let w1 = print_line (Reponse (take 300 t)) w
             in if k < 1 then Inr (sleep 1 w1) else Inl (Inr JNull, w1))
      else if k < 1 then Inr (sleep 1 w) else Inl (Inr JNull, w))"

fun call_bedrock_dashboard_loop ::
    "decoder \<Rightarrow> service \<Rightarrow> nat list \<Rightarrow> pystr option \<Rightarrow> world
      \<Rightarrow> (py_error + json) \<times> world" where
  "call_bedrock_dashboard_loop loads responses [] response_text w = (Inr JNull, w)"
| "call_bedrock_dashboard_loop loads responses (k # rest) response_text w =
     (let w1 = invoke w in
      case responses k of
        Inl e \<Rightarrow>
          (case handle_dashboard e response_text k w1 of
             Inl finished \<Rightarrow> finished
           | Inr w2 \<Rightarrow> call_bedrock_dashboard_loop loads responses rest response_text w2)
      | Inr completion \<Rightarrow>
          let cleaned = clean_markdown completion in
          (case loads (strip cleaned) of
             Some result \<Rightarrow> (Inr result, w1)
           | None \<Rightarrow>
               (case handle_dashboard JSONDecodeError (Some cleaned) k w1 of
                  Inl finished \<Rightarrow> finished
                | Inr w2 \<Rightarrow>
                    call_bedrock_dashboard_loop loads responses rest (Some cleaned) w2)))"

definition call_bedrock_dashboard ::
    "bool \<Rightarrow> decoder \<Rightarrow> service \<Rightarrow> world \<Rightarrow> (py_error + json) \<times> world" where
  "call_bedrock_dashboard BEDROCK_AVAILABLE loads responses w =
     (if \<not> BEDROCK_AVAILABLE then (Inr JNull, w)
      else call_bedrock_dashboard_loop loads responses [0..<2] None w)"

subsection \<open>dashboard/app.py: analyze_company_regulation_pair and analyze_regulation_with_bedrock\<close>

text \<open>
  \<open>format_company_info\<close> and the construction of the result record (lines 166-175) format
  and round floating-point numbers and read the clock; both can raise on data of an
  unexpected shape. They are parameters: \<open>format_info\<close> gives the formatted company or
  the exception, \<open>make_result\<close> the record built from the formatted company and a true
  analysis, or the exception.
\<close>

record task_pair =
  company_data :: json
  service_for :: service

record dashboard_code =
  BEDROCK_AVAILABLE :: bool
  format_info :: "json \<Rightarrow> py_error + json"
  make_result :: "json \<Rightarrow> json \<Rightarrow> py_error + json"

definition analyze_company_regulation_pair ::
    "dashboard_code \<Rightarrow> decoder \<Rightarrow> task_pair \<Rightarrow> world \<Rightarrow> (py_error + json) \<times> world" where
  "analyze_company_regulation_pair code loads task w =
     (case format_info code (company_data task) of
        Inl e \<Rightarrow> (Inl e, w)
      | Inr company_info \<Rightarrow>
          (case call_bedrock_dashboard (BEDROCK_AVAILABLE code) loads (service_for task) w of
             (Inl e, w1) \<Rightarrow> (Inl e, w1)
           | (Inr analysis, w1) \<Rightarrow>
               if truthy analysis then (make_result code company_info analysis, w1)
               else (Inr JNull, w1)))"

fun run_workers_pair ::
    "dashboard_code \<Rightarrow> decoder \<Rightarrow> task_pair list \<Rightarrow> world \<Rightarrow> (py_error + json) list \<times> world" where
  "run_workers_pair code loads [] w = ([], w)"
| "run_workers_pair code loads (task # tasks) w =
     (case analyze_company_regulation_pair code loads task w of
        (outcome, w1) \<Rightarrow>
          (case run_workers_pair code loads tasks w1 of
             (outcomes, w2) \<Rightarrow> (outcome # outcomes, w2)))"

text \<open>
  The main loop, lines 236-247: a true result is appended, \<open>completed\<close> is counted and
  the progress callback, when there is one, is called with \<open>(completed, total)\<close>. The
  state of the loop is the list of results, the counter and the calls made.
\<close>

record collected =
  appended :: "json list"
  completed :: nat
  progress_calls :: "(nat \<times> nat) list"

fun collect_pair :: "bool \<Rightarrow> nat \<Rightarrow> (py_error + json) list \<Rightarrow> collected \<Rightarrow> py_error + collected" where
  "collect_pair has_callback n_total [] c = Inr c"
| "collect_pair has_callback n_total (Inl e # outcomes) c = Inl e"
| "collect_pair has_callback n_total (Inr result # outcomes) c =
     (let c1 = (if truthy result then c\<lparr>appended := appended c @ [result]\<rparr> else c);
          c2 = c1\<lparr>completed := completed c1 + 1\<rparr>;
          c3 = (if has_callback
                then c2\<lparr>progress_calls := progress_calls c2 @ [(completed c2, n_total)]\<rparr>
                else c2)
      in collect_pair has_callback n_total outcomes c3)"

definition analyze_regulation_with_bedrock ::
    "dashboard_code \<Rightarrow> decoder \<Rightarrow> bool \<Rightarrow> task_pair list \<Rightarrow> py_error + json list" where
  "analyze_regulation_with_bedrock code loads has_callback companies =
     (if companies = [] then Inr []
      else
        case collect_pair has_callback (length companies)
               (fst (run_workers_pair code loads companies world0))
               \<lparr>appended = [], completed = 0, progress_calls = []\<rparr> of
          Inl e \<Rightarrow> Inl e
        | Inr c \<Rightarrow> Inr (appended c))"

text \<open>
  A batch of three companies to run the dashboard on. The service answers the first and
  the third with \<open>{"a":1}\<close>; for the second, the body of its first response is not JSON.
\<close>

definition good_service :: service where
  "good_service k = Inr (u ''{\"a\":1}'')"

definition broken_body_service :: service where
  "broken_body_service k = Inl JSONDecodeError"

definition demo_code :: dashboard_code where
  "demo_code =
     \<lparr> BEDROCK_AVAILABLE = True,
       format_info = (\<lambda>company. Inr company),
       make_result = (\<lambda>company_info analysis. Inr analysis) \<rparr>"

definition three_companies :: "task_pair list" where
  "three_companies =
     [\<lparr>company_data = JObj [(u ''ticker'', JStr (u ''AAA''))], service_for = good_service\<rparr>,
      \<lparr>company_data = JObj [(u ''ticker'', JStr (u ''BBB''))], service_for = broken_body_service\<rparr>,
      \<lparr>company_data = JObj [(u ''ticker'', JStr (u ''CCC''))], service_for = good_service\<rparr>]"

section \<open>The end of a batch\<close>

text \<open>
  What the last part of a batch function leaves: the lines printed and the content of
  \<open>OUTPUT_FILE\<close> (\<open>None\<close> while it has not been written). A printed line is kept as a
  value that carries the numbers formatted into it; the file is taken to be writable.
\<close>

datatype summary_line =
    Blank
  | Rule
  | Title string
  | Succes nat nat
  | Echecs nat
  | Temps_total real
  | Vitesse real
  | Analyses_reussies nat nat
  | Sauvegarde

record 'r report =
  stdout :: "summary_line list"
  output_file :: "'r list option"

definition say :: "summary_line \<Rightarrow> 'r report \<Rightarrow> 'r report" where
  "say l out = out\<lparr>stdout := stdout out @ [l]\<rparr>"

definition py_divide :: "real \<Rightarrow> real \<Rightarrow> py_error + real" where
  "py_divide a b = (if b = 0 then Inl ZeroDivisionError else Inr (a / b))"

subsection \<open>extraction_mod/extract_10k.py: extract_all_10k, lines 281-300\<close>

text \<open>
  \<open>results\<close> is what the main loop has collected and \<open>elapsed_time\<close> the time it took.
  The records of extract_10k.py have the shape of those of extract_10k_v2.py. Each
  f-string is evaluated before its line is printed, so a division by zero in it leaves
  the line unprinted.
\<close>

definition extract_all_10k_epilogue ::
    "result_10k list \<Rightarrow> real \<Rightarrow> result_10k report \<Rightarrow> (py_error + unit) \<times> result_10k report" where
  "extract_all_10k_epilogue results elapsed_time out =
     (let successful = length (filter is_success results);
          n_failed = length results - successful;
          out1 = say Rule (say (Title ''STATISTIQUES'') (say Rule (say Blank out)))
      in case py_divide (real successful) (real (length results)) of
           Inl e \<Rightarrow> (Inl e, out1)
         | Inr ratio \<Rightarrow>
             let out2 = say (Temps_total (elapsed_time / 60))
                          (say (Echecs n_failed) (say (Succes successful (length results)) out1))
             in case py_divide (real (length results)) elapsed_time of
                  Inl e \<Rightarrow> (Inl e, out2)
                | Inr rate \<Rightarrow>
                    let out3 = say (Vitesse (rate * 60)) out2;
                        out4 = out3\<lparr>output_file := Some results\<rparr>
                    in (Inr (), say Sauvegarde out4))"

subsection \<open>app/run_analysis.py: run_full_analysis, lines 306-321\<close>

text \<open>
  Line 313 formats \<open>len(results)\<close> and \<open>len(tasks)\<close>. The name \<open>tasks\<close> is bound nowhere:
  not in the function, not in the module, and it is not a builtin. Reading it raises
  \<open>NameError\<close> before the line is printed, and the rest of the function (the speed and
  time lines, the writing of \<open>OUTPUT_FILE\<close>, the CSV of recommendations) is not reached.
\<close>

definition run_full_analysis_epilogue ::
    "json list \<Rightarrow> real \<Rightarrow> json report \<Rightarrow> (py_error + json list) \<times> json report" where
  "run_full_analysis_epilogue results elapsed_time out =
     (let out1 = say Rule (say (Title ''STATISTIQUES'') (say Rule (say Blank out)))
      in (Inl (NameError ''tasks''), out1))"

definition empty_report :: "'r report" where
  "empty_report = \<lparr>stdout = [], output_file = None\<rparr>"

definition one_precalculated_result :: "json list" where
  "one_precalculated_result =
     [JObj [(u ''ticker'', JStr (u ''AAA'')), (u ''impact_score'', JInt (- 1)),
            (u ''source'', JStr (u ''pre_calculated''))]]"

section \<open>Properties of the score buckets\<close>

text \<open>
  C4. The recommendation is a partition of the real line: every score gets one of the
  five labels, each label is returned exactly on its interval, the intervals being
  \<open>score \<le> -1.5\<close>, \<open>-1.5 < score \<le> -0.5\<close>, \<open>-0.5 < score \<le> 0.5\<close>,
  \<open>0.5 < score \<le> 1.5\<close> and \<open>score > 1.5\<close>; the boundary \<open>-1.5\<close> is SELL and
  nothing else.
\<close>

theorem get_overall_recommendation_partition:
  "get_overall_recommendation s \<in> {''SELL'', ''REDUCE'', ''HOLD'', ''BUY'', ''STRONG_BUY''}
   \<and> (get_overall_recommendation s = ''SELL'') = (s \<le> - 3 / 2)
   \<and> (get_overall_recommendation s = ''REDUCE'') = (- 3 / 2 < s \<and> s \<le> - 1 / 2)
   \<and> (get_overall_recommendation s = ''HOLD'') = (- 1 / 2 < s \<and> s \<le> 1 / 2)
   \<and> (get_overall_recommendation s = ''BUY'') = (1 / 2 < s \<and> s \<le> 3 / 2)
   \<and> (get_overall_recommendation s = ''STRONG_BUY'') = (3 / 2 < s)
   \<and> get_overall_recommendation (- 3 / 2) = ''SELL''"
  by (simp add: get_overall_recommendation_def)

text \<open>
  C10. The sentiment of a score is always one of the five labels. Inside \<open>[-3, 3)\<close> it is
  the label of the half-open range that holds the score; a score of \<open>3\<close> or more, which no
  range holds, is VERY_POSITIVE by the fallback, and a score below \<open>-3\<close> is VERY_NEGATIVE.
\<close>

theorem get_sentiment_from_score_total:
  "get_sentiment_from_score s \<in>
     {''VERY_NEGATIVE'', ''NEGATIVE'', ''NEUTRAL'', ''POSITIVE'', ''VERY_POSITIVE''}
   \<and> first_range SENTIMENT_CONFIG s = None = (s < - 3 \<or> 3 \<le> s)
   \<and> (get_sentiment_from_score s = ''VERY_NEGATIVE'') = (s < - 3 / 2)
   \<and> (get_sentiment_from_score s = ''NEGATIVE'') = (- 3 / 2 \<le> s \<and> s < - 1 / 2)
   \<and> (get_sentiment_from_score s = ''NEUTRAL'') = (- 1 / 2 \<le> s \<and> s < 1 / 2)
   \<and> (get_sentiment_from_score s = ''POSITIVE'') = (1 / 2 \<le> s \<and> s < 3 / 2)
   \<and> (get_sentiment_from_score s = ''VERY_POSITIVE'') = (3 / 2 \<le> s)
   \<and> get_sentiment_from_score 3 = ''VERY_POSITIVE''"
  by (simp add: get_sentiment_from_score_def SENTIMENT_CONFIG_def)

section \<open>Basic facts\<close>

lemma seq_Inr [simp]: "seq (Inr v) f = f v"
  by (simp add: seq_def)

lemma seq_Inl [simp]: "seq (Inl e) f = Inl e"
  by (simp add: seq_def)

lemma invocations_simps [simp]:
  "invocations (invoke w) = invocations w + 1"
  "invocations (sleep n w) = invocations w"
  "invocations (log_error tag e w) = invocations w"
  "invocations (print_line l w) = invocations w"
  by (simp_all add: invoke_def sleep_def log_error_def print_line_def)

section \<open>Cleaning and decoding a completion\<close>

lemma strip_idem: "strip (strip s) = strip s"
proof -
  define t where "t = dropWhile is_space s"
  define r where "r = rev (dropWhile is_space (rev t))"
  have pre: "prefix r t"
    unfolding r_def using suffix_dropWhile [of is_space "rev t"]
    by (simp add: suffix_to_prefix)
  have lead: "dropWhile is_space r = r"
  proof (cases r)
    case Nil
    then show ?thesis by simp
  next
    case (Cons x xs)
    with pre have "t \<noteq> []" and "hd t = x"
      by (auto simp: prefix_def)
    then have "\<not> is_space x"
      using hd_dropWhile [of is_space s] by (simp add: t_def)
    then show ?thesis using Cons by simp
  qed
  have trail: "dropWhile is_space (rev r) = rev r"
    by (simp add: r_def)
  show ?thesis
    using lead trail by (simp add: strip_def t_def r_def)
qed

lemma clean_json_response_fenced_example:
  "clean_json_response fenced_example = u ''{\"a\":1}''"
  by (simp add: clean_json_response_def fenced_example_def u_def strip_def is_space_def
      startswith_def endswith_def suffix_def Let_def)

lemma clean_markdown_fenced_example:
  "strip (clean_markdown fenced_example) = u ''{\"a\":1}''"
  by (simp add: clean_markdown_def fenced_example_def u_def strip_def is_space_def
      startswith_def endswith_def suffix_def Let_def)

lemma clean_unfenced_examples:
  "clean_json_response (u ''{\"a\":1}'') = u ''{\"a\":1}''"
  "strip (clean_markdown (u ''{\"a\":1}'')) = u ''{\"a\":1}''"
  "clean_json_response (u ''not json'') = u ''not json''"
  "strip (clean_markdown (u ''not json'')) = u ''not json''"
  by (simp_all add: clean_markdown_def clean_json_response_def u_def strip_def is_space_def
      startswith_def endswith_def suffix_def Let_def)

lemma strip_fence_wrapped:
  "strip (u ''```json'' @ body @ u ''```'') = u ''```json'' @ body @ u ''```''"
  by (simp add: strip_def u_def is_space_def)

lemma clean_json_response_wrapped:
  "clean_json_response (u ''```json'' @ body @ u ''```'') = strip body"
  unfolding clean_json_response_def strip_fence_wrapped
  by (simp add: startswith_def endswith_def suffix_def Let_def u_def)

lemma clean_without_fences:
  assumes "\<not> startswith (strip t) (u ''```'')" and "\<not> endswith (strip t) (u ''```'')"
  shows "clean_json_response t = strip t" and "strip (clean_markdown t) = strip t"
proof -
  have "\<not> startswith (strip t) (u ''```json'')"
    using assms(1) by (auto simp: startswith_def u_def prefix_def)
  then show "clean_json_response t = strip t" and "strip (clean_markdown t) = strip t"
    using assms by (simp_all add: clean_json_response_def clean_markdown_def Let_def strip_idem)
qed

lemma strip_surrounded:
  assumes "list_all is_space ws1" and "list_all is_space ws2"
  shows "strip (ws1 @ x @ ws2) = strip x"
proof -
  have a: "dropWhile is_space (ws1 @ ys) = dropWhile is_space ys" for ys
    using assms(1) by (intro dropWhile_append2) (simp add: list_all_iff)
  have b: "dropWhile is_space (rev ws2 @ ys) = dropWhile is_space ys" for ys
    using assms(2) by (intro dropWhile_append2) (simp add: list_all_iff)
  show ?thesis
  proof (cases "list_all is_space x")
    case True
    then have e: "dropWhile is_space (x @ ws2) = []" "dropWhile is_space x = []"
      using assms(2) by (auto simp: list_all_iff)
    show ?thesis
      unfolding strip_def a e by simp
  next
    case False
    then obtain c where "c \<in> set x" and "\<not> is_space c"
      by (auto simp: list_all_iff)
    then have e: "dropWhile is_space (x @ ws2) = dropWhile is_space x @ ws2"
      by (simp add: dropWhile_append1)
    show ?thesis
      unfolding strip_def a e by (simp add: b)
  qed
qed

lemma fence_facts:
  "startswith (p @ x) p"
  "endswith (x @ p) p"
  "drop 7 (u ''```json'' @ x) = x"
  "drop 3 (u ''```'' @ x) = x"
  "length (u ''```'') = 3"
  "take (length x) (x @ y) = x"
  "startswith (u ''```'' @ x) (u ''```json'') = startswith x (u ''json'')"
  by (simp_all add: startswith_def endswith_def suffix_def u_def)

lemma json_fence_is_fence:
  assumes "\<not> startswith s (u ''```'')"
  shows "\<not> startswith s (u ''```json'')"
  using assms by (auto simp: startswith_def u_def prefix_def)

lemma json_before_fence:
  "startswith (b @ u ''```'') (u ''json'') = startswith b (u ''json'')"
  by (auto simp: startswith_def u_def prefix_append prefix_Cons append_eq_Cons_conv)

text \<open>
  What \<open>clean_json_response\<close> does in each case, read on the stripped text: both
  fences, the leading fence being \<open>```json\<close> or the plain \<open>```\<close>; a leading fence only;
  a trailing fence only.
\<close>

lemma clean_json_response_cases:
  "strip t = u ''```json'' @ b @ u ''```'' \<Longrightarrow> clean_json_response t = strip b"
  "strip t = u ''```'' @ b @ u ''```'' \<Longrightarrow> \<not> startswith b (u ''json'')
     \<Longrightarrow> clean_json_response t = strip b"
  "strip t = u ''```json'' @ b \<Longrightarrow> \<not> endswith b (u ''```'')
     \<Longrightarrow> clean_json_response t = strip b"
  "strip t = u ''```'' @ b \<Longrightarrow> \<not> startswith b (u ''json'') \<Longrightarrow> \<not> endswith b (u ''```'')
     \<Longrightarrow> clean_json_response t = strip b"
  "strip t = b @ u ''```'' \<Longrightarrow> \<not> startswith (b @ u ''```'') (u ''```'')
     \<Longrightarrow> clean_json_response t = strip b"
  by (simp_all add: clean_json_response_def Let_def fence_facts json_before_fence
      json_fence_is_fence del: drop_append take_append)

text \<open>
  The same for the cleaning of run_analysis.py, where a second fence right after
  \<open>```json\<close> is removed as well.
\<close>

lemma clean_markdown_cases:
  "strip t = u ''```json'' @ b @ u ''```'' \<Longrightarrow> \<not> startswith (b @ u ''```'') (u ''```'')
     \<Longrightarrow> strip (clean_markdown t) = strip b"
  "strip t = u ''```json'' @ u ''```'' @ b @ u ''```'' \<Longrightarrow> strip (clean_markdown t) = strip b"
  "strip t = u ''```'' @ b @ u ''```'' \<Longrightarrow> \<not> startswith b (u ''json'')
     \<Longrightarrow> strip (clean_markdown t) = strip b"
  "strip t = u ''```json'' @ b \<Longrightarrow> \<not> startswith b (u ''```'') \<Longrightarrow> \<not> endswith b (u ''```'')
     \<Longrightarrow> strip (clean_markdown t) = strip b"
  "strip t = u ''```'' @ b \<Longrightarrow> \<not> startswith b (u ''json'') \<Longrightarrow> \<not> endswith b (u ''```'')
     \<Longrightarrow> strip (clean_markdown t) = strip b"
  "strip t = b @ u ''```'' \<Longrightarrow> \<not> startswith (b @ u ''```'') (u ''```'')
     \<Longrightarrow> strip (clean_markdown t) = strip b"
  by (simp_all add: clean_markdown_def Let_def fence_facts json_before_fence
      json_fence_is_fence del: drop_append take_append)

lemma clean_ignores_surrounding_space:
  assumes "list_all is_space ws1" and "list_all is_space ws2"
  shows "clean_json_response (ws1 @ t @ ws2) = clean_json_response t"
    and "clean_markdown (ws1 @ t @ ws2) = clean_markdown t"
  by (simp_all add: clean_json_response_def clean_markdown_def strip_surrounded [OF assms])

text \<open>
  C5. Cleaning trims white space, removes a leading fence, \<open>```json\<close> or the plain
  \<open>```\<close>, and a trailing \<open>```\<close> fence, each if it is there, trims again, and the result
  is what the decoder is given; nothing is tried after the decoder has failed. This holds
  in extract_10k_v2.py and in run_analysis.py. Read on the text \<open>t\<close> once stripped:
  with both fences, with a leading fence only, with a trailing fence only, the decoder
  gets the stripped body \<open>b\<close>; with no fence it gets the stripped text; white space
  around \<open>t\<close> changes nothing. (The side conditions say that the body is not taken for a
  fence or a language tag: after a plain fence it does not begin with \<open>json\<close>, and in
  run_analysis.py, which removes a second fence after \<open>```json\<close>, it does not begin with
  one.) With a decoder that reads \<open>{"a":1}\<close> as \<open>obj\<close> and rejects \<open>not json\<close>, the
  completions \<open>```json\n{"a":1}\n```\<close> and \<open>```\n{"a":1}\n```\<close> decode to \<open>obj\<close>, the
  bare \<open>{"a":1}\<close> decodes to \<open>obj\<close>, and \<open>not json\<close> is a decoding failure.
\<close>

theorem clean_and_decode_completion:
  assumes "loads (u ''{\"a\":1}'') = Some obj" and "loads (u ''not json'') = None"
  shows "parse_completion_v2 loads fenced_example = Some obj
       \<and> parse_completion_v2 loads (u ''{\"a\":1}'') = Some obj
       \<and> parse_completion_v2 loads (u ''not json'') = None
       \<and> parse_completion loads fenced_example = Some obj
       \<and> parse_completion loads (u ''{\"a\":1}'') = Some obj
       \<and> parse_completion loads (u ''not json'') = None
       \<and> parse_completion_v2 loads (u ''```json'' @ body @ u ''```'') = loads (strip body)
       \<and> (\<not> startswith (strip t) (u ''```'') \<and> \<not> endswith (strip t) (u ''```'')
            \<longrightarrow> parse_completion_v2 loads t = loads (strip t)
              \<and> parse_completion loads t = loads (strip t))
       \<and> parse_completion_v2 loads plain_fenced_example = Some obj
       \<and> parse_completion loads plain_fenced_example = Some obj
       \<and> (strip t = u ''```json'' @ b @ u ''```''
            \<longrightarrow> parse_completion_v2 loads t = loads (strip b))
       \<and> (strip t = u ''```'' @ b @ u ''```'' \<and> \<not> startswith b (u ''json'')
            \<longrightarrow> parse_completion_v2 loads t = loads (strip b)
              \<and> parse_completion loads t = loads (strip b))
       \<and> (strip t = u ''```json'' @ b \<and> \<not> endswith b (u ''```'')
            \<longrightarrow> parse_completion_v2 loads t = loads (strip b))
       \<and> (strip t = u ''```'' @ b \<and> \<not> startswith b (u ''json'') \<and> \<not> endswith b (u ''```'')
            \<longrightarrow> parse_completion_v2 loads t = loads (strip b)
              \<and> parse_completion loads t = loads (strip b))
       \<and> (strip t = b @ u ''```'' \<and> \<not> startswith (b @ u ''```'') (u ''```'')
            \<longrightarrow> parse_completion_v2 loads t = loads (strip b)
              \<and> parse_completion loads t = loads (strip b))
       \<and> (strip t = u ''```json'' @ b @ u ''```'' \<and> \<not> startswith (b @ u ''```'') (u ''```'')
            \<longrightarrow> parse_completion loads t = loads (strip b))
       \<and> (strip t = u ''```json'' @ u ''```'' @ b @ u ''```''
            \<longrightarrow> parse_completion loads t = loads (strip b))
       \<and> (strip t = u ''```json'' @ b \<and> \<not> startswith b (u ''```'') \<and> \<not> endswith b (u ''```'')
            \<longrightarrow> parse_completion loads t = loads (strip b))
       \<and> (list_all is_space ws1 \<and> list_all is_space ws2
            \<longrightarrow> parse_completion_v2 loads (ws1 @ t @ ws2) = parse_completion_v2 loads t
              \<and> parse_completion loads (ws1 @ t @ ws2) = parse_completion loads t)"
proof -
  have examples:
    "parse_completion_v2 loads fenced_example = Some obj"
    "parse_completion_v2 loads (u ''{\"a\":1}'') = Some obj"
    "parse_completion_v2 loads (u ''not json'') = None"
    "parse_completion loads fenced_example = Some obj"
    "parse_completion loads (u ''{\"a\":1}'') = Some obj"
    "parse_completion loads (u ''not json'') = None"
    "parse_completion_v2 loads (u ''```json'' @ body @ u ''```'') = loads (strip body)"
    using assms
    by (simp_all add: parse_completion_v2_def parse_completion_def
        clean_json_response_fenced_example clean_markdown_fenced_example
        clean_unfenced_examples clean_json_response_wrapped)
  have unfenced: "\<not> startswith (strip t) (u ''```'') \<and> \<not> endswith (strip t) (u ''```'')
            \<longrightarrow> parse_completion_v2 loads t = loads (strip t)
              \<and> parse_completion loads t = loads (strip t)"
    by (simp add: parse_completion_v2_def parse_completion_def clean_without_fences)
  have "strip plain_fenced_example = u ''```'' @ body_between_lines @ u ''```''"
    and "\<not> startswith body_between_lines (u ''json'')"
    and "strip body_between_lines = u ''{\"a\":1}''"
    by (simp_all add: plain_fenced_example_def body_between_lines_def strip_def is_space_def
        startswith_def u_def)
  then have plain:
    "parse_completion_v2 loads plain_fenced_example = Some obj"
    "parse_completion loads plain_fenced_example = Some obj"
    using assms(1)
    by (simp_all add: parse_completion_v2_def parse_completion_def
        clean_json_response_cases(2) clean_markdown_cases(3))
  have v2:
    "strip t = u ''```json'' @ b @ u ''```''
       \<longrightarrow> parse_completion_v2 loads t = loads (strip b)"
    "strip t = u ''```'' @ b @ u ''```'' \<and> \<not> startswith b (u ''json'')
       \<longrightarrow> parse_completion_v2 loads t = loads (strip b)
         \<and> parse_completion loads t = loads (strip b)"
    "strip t = u ''```json'' @ b \<and> \<not> endswith b (u ''```'')
       \<longrightarrow> parse_completion_v2 loads t = loads (strip b)"
    "strip t = u ''```'' @ b \<and> \<not> startswith b (u ''json'') \<and> \<not> endswith b (u ''```'')
       \<longrightarrow> parse_completion_v2 loads t = loads (strip b)
         \<and> parse_completion loads t = loads (strip b)"
    "strip t = b @ u ''```'' \<and> \<not> startswith (b @ u ''```'') (u ''```'')
       \<longrightarrow> parse_completion_v2 loads t = loads (strip b)
         \<and> parse_completion loads t = loads (strip b)"
    using clean_json_response_cases [of t b] clean_markdown_cases [of t b]
    by (simp_all add: parse_completion_v2_def parse_completion_def)
  have ra:
    "strip t = u ''```json'' @ b @ u ''```'' \<and> \<not> startswith (b @ u ''```'') (u ''```'')
       \<longrightarrow> parse_completion loads t = loads (strip b)"
    "strip t = u ''```json'' @ u ''```'' @ b @ u ''```''
       \<longrightarrow> parse_completion loads t = loads (strip b)"
    "strip t = u ''```json'' @ b \<and> \<not> startswith b (u ''```'') \<and> \<not> endswith b (u ''```'')
       \<longrightarrow> parse_completion loads t = loads (strip b)"
    using clean_markdown_cases [of t b]
    by (simp_all add: parse_completion_def)
  have padded: "list_all is_space ws1 \<and> list_all is_space ws2
       \<longrightarrow> parse_completion_v2 loads (ws1 @ t @ ws2) = parse_completion_v2 loads t
         \<and> parse_completion loads (ws1 @ t @ ws2) = parse_completion loads t"
    by (simp add: parse_completion_v2_def parse_completion_def clean_ignores_surrounding_space)
  show ?thesis
    using examples unfenced plain v2 ra padded by (intro conjI)
qed

theorem clean_and_decode_completion_witness:
  "demo_loads (u ''{\"a\":1}'') = Some (JObj [(u ''a'', JInt 1)])
   \<and> demo_loads (u ''not json'') = None
   \<and> parse_completion_v2 demo_loads fenced_example = Some (JObj [(u ''a'', JInt 1)])
   \<and> parse_completion demo_loads fenced_example = Some (JObj [(u ''a'', JInt 1)])
   \<and> parse_completion_v2 demo_loads (u ''not json'') = None
   \<and> parse_completion demo_loads (u ''not json'') = None
   \<and> \<not> startswith (strip (u '' {\"a\":1} '')) (u ''```'')
   \<and> \<not> endswith (strip (u '' {\"a\":1} '')) (u ''```'')
   \<and> parse_completion_v2 demo_loads (u '' {\"a\":1} '') = Some (JObj [(u ''a'', JInt 1)])
   \<and> parse_completion demo_loads (u '' {\"a\":1} '') = Some (JObj [(u ''a'', JInt 1)])
   \<and> strip plain_fenced_example
       = u ''```'' @ body_between_lines @ u ''```''
   \<and> \<not> startswith body_between_lines (u ''json'')
   \<and> parse_completion_v2 demo_loads plain_fenced_example = Some (JObj [(u ''a'', JInt 1)])
   \<and> parse_completion demo_loads plain_fenced_example = Some (JObj [(u ''a'', JInt 1)])
   \<and> strip open_json_fence_example = u ''```json'' @ body_after_line
   \<and> \<not> startswith body_after_line (u ''```'')
   \<and> \<not> endswith body_after_line (u ''```'')
   \<and> parse_completion_v2 demo_loads open_json_fence_example = Some (JObj [(u ''a'', JInt 1)])
   \<and> parse_completion demo_loads open_json_fence_example = Some (JObj [(u ''a'', JInt 1)])
   \<and> strip open_plain_fence_example = u ''```'' @ body_after_line
   \<and> \<not> startswith body_after_line (u ''json'')
   \<and> parse_completion_v2 demo_loads open_plain_fence_example = Some (JObj [(u ''a'', JInt 1)])
   \<and> parse_completion demo_loads open_plain_fence_example = Some (JObj [(u ''a'', JInt 1)])
   \<and> strip closing_fence_example = body_before_line @ u ''```''
   \<and> \<not> startswith (body_before_line @ u ''```'') (u ''```'')
   \<and> parse_completion_v2 demo_loads closing_fence_example = Some (JObj [(u ''a'', JInt 1)])
   \<and> parse_completion demo_loads closing_fence_example = Some (JObj [(u ''a'', JInt 1)])
   \<and> strip fenced_example
       = u ''```json'' @ body_between_lines @ u ''```''
   \<and> \<not> startswith (body_between_lines @ u ''```'') (u ''```'')
   \<and> strip double_fence_example
       = u ''```json'' @ u ''```'' @ body_between_lines @ u ''```''
   \<and> parse_completion demo_loads double_fence_example = Some (JObj [(u ''a'', JInt 1)])
   \<and> list_all is_space leading_space
   \<and> list_all is_space trailing_space
   \<and> parse_completion_v2 demo_loads padded_example = Some (JObj [(u ''a'', JInt 1)])
   \<and> parse_completion demo_loads padded_example = Some (JObj [(u ''a'', JInt 1)])"
proof -
  have h1: "demo_loads (u ''{\"a\":1}'') = Some (JObj [(u ''a'', JInt 1)])"
    by (simp add: demo_loads_def)
  have h2: "demo_loads (u ''not json'') = None"
    by (simp add: demo_loads_def u_def)
  note inst = clean_and_decode_completion [OF h1 h2]
  have bodies:
    "strip body_between_lines = u ''{\"a\":1}''"
    "strip body_after_line = u ''{\"a\":1}''"
    "strip body_before_line = u ''{\"a\":1}''"
    "strip (u '' {\"a\":1} '') = u ''{\"a\":1}''"
    by (simp_all add: body_between_lines_def body_after_line_def body_before_line_def
        strip_def u_def is_space_def)
  have bare: "\<not> startswith (strip (u '' {\"a\":1} '')) (u ''```'')"
    "\<not> endswith (strip (u '' {\"a\":1} '')) (u ''```'')"
    unfolding bodies by (simp_all add: startswith_def endswith_def suffix_def u_def)
  have stripped:
    "strip plain_fenced_example
       = u ''```'' @ body_between_lines @ u ''```''"
    "strip open_json_fence_example = u ''```json'' @ body_after_line"
    "strip open_plain_fence_example = u ''```'' @ body_after_line"
    "strip closing_fence_example = body_before_line @ u ''```''"
    "strip fenced_example
       = u ''```json'' @ body_between_lines @ u ''```''"
    "strip double_fence_example
       = u ''```json'' @ u ''```'' @ body_between_lines @ u ''```''"
    by (simp_all add: plain_fenced_example_def open_json_fence_example_def
        open_plain_fence_example_def closing_fence_example_def fenced_example_def
        double_fence_example_def body_between_lines_def body_after_line_def
        body_before_line_def strip_def u_def is_space_def)
  have sides:
    "\<not> startswith body_between_lines (u ''json'')"
    "\<not> startswith body_after_line (u ''```'')"
    "\<not> endswith body_after_line (u ''```'')"
    "\<not> startswith body_after_line (u ''json'')"
    "\<not> startswith (body_before_line @ u ''```'') (u ''```'')"
    "\<not> startswith (body_between_lines @ u ''```'') (u ''```'')"
    by (simp_all add: body_between_lines_def body_after_line_def body_before_line_def
        startswith_def endswith_def suffix_def u_def)
  have spaces: "list_all is_space leading_space"
    "list_all is_space trailing_space"
    by (simp_all add: leading_space_def trailing_space_def u_def is_space_def)
  have fixed:
    "parse_completion_v2 demo_loads fenced_example = Some (JObj [(u ''a'', JInt 1)])"
    "parse_completion demo_loads fenced_example = Some (JObj [(u ''a'', JInt 1)])"
    "parse_completion_v2 demo_loads (u ''not json'') = None"
    "parse_completion demo_loads (u ''not json'') = None"
    "parse_completion_v2 demo_loads plain_fenced_example = Some (JObj [(u ''a'', JInt 1)])"
    "parse_completion demo_loads plain_fenced_example = Some (JObj [(u ''a'', JInt 1)])"
    using inst by simp_all
  have unfenced:
    "parse_completion_v2 demo_loads (u '' {\"a\":1} '') = Some (JObj [(u ''a'', JInt 1)])"
    "parse_completion demo_loads (u '' {\"a\":1} '') = Some (JObj [(u ''a'', JInt 1)])"
    using inst [where t = "u '' {\"a\":1} ''"] bare h1 by (simp_all add: bodies)
  have open_json:
    "parse_completion_v2 demo_loads open_json_fence_example = Some (JObj [(u ''a'', JInt 1)])"
    "parse_completion demo_loads open_json_fence_example = Some (JObj [(u ''a'', JInt 1)])"
    using inst [where t = open_json_fence_example and b = body_after_line]
      stripped(2) sides(2,3) h1
    by (simp_all add: bodies)
  have open_plain:
    "parse_completion_v2 demo_loads open_plain_fence_example = Some (JObj [(u ''a'', JInt 1)])"
    "parse_completion demo_loads open_plain_fence_example = Some (JObj [(u ''a'', JInt 1)])"
    using inst [where t = open_plain_fence_example and b = body_after_line]
      stripped(3) sides(3,4) h1
    by (simp_all add: bodies)
  have closing:
    "parse_completion_v2 demo_loads closing_fence_example = Some (JObj [(u ''a'', JInt 1)])"
    "parse_completion demo_loads closing_fence_example = Some (JObj [(u ''a'', JInt 1)])"
    using inst [where t = closing_fence_example and b = body_before_line]
      stripped(4) sides(5) h1
    by (simp_all add: bodies)
  have double: "parse_completion demo_loads double_fence_example = Some (JObj [(u ''a'', JInt 1)])"
    using inst [where t = double_fence_example
        and b = body_between_lines]
      stripped(6) h1
    by (simp add: bodies)
  have padded:
    "parse_completion_v2 demo_loads padded_example = Some (JObj [(u ''a'', JInt 1)])"
    "parse_completion demo_loads padded_example = Some (JObj [(u ''a'', JInt 1)])"
    using inst [where t = plain_fenced_example and ?ws1.0 = leading_space
        and ?ws2.0 = trailing_space] spaces fixed(5,6)
    by (simp_all add: padded_example_def)
  show ?thesis
    using h1 h2 fixed bare unfenced stripped sides open_json open_plain closing double
      spaces padded
    by (intro conjI)
qed

section \<open>The canonical profile keeps the flexible maps\<close>

lemma dict_get_JObj: "dict_get (JObj items) key dflt = Inr (field_or items key dflt)"
  by (simp add: dict_get_def field_or_def split: option.splits)

lemma section_of_dict_get:
  assumes "section_of data name = Some entries"
  shows "dict_get data name (JObj []) = Inr (JObj entries)"
  using assms
  by (auto simp: section_of_def dict_get_def split: json.splits option.splits)

lemma section_of_is_dict:
  assumes "section_of data name = Some entries"
  shows "\<exists>items. data = JObj items"
  using assms by (cases data) (simp_all add: section_of_def)

lemma normalize_structure_sections:
  assumes "section_of data (u ''company_info'') = Some ci"
    and "section_of data (u ''geographic_revenue'') = Some geo"
    and "section_of data (u ''supply_chain'') = Some sc"
    and "section_of data (u ''key_financials'') = Some kf"
  shows "\<exists>bs md. normalize_structure data = Inr (JObj
       [(u ''company_info'', JObj ci),
        (u ''geographic_revenue'', JObj geo),
        (u ''business_segments'', bs),
        (u ''key_financials'', JObj kf),
        (u ''supply_chain'', JObj sc),
        (u ''metadata'', md),
        (u ''identity_and_jurisdiction'', JObj
          [(u ''company_name'', field_or ci (u ''name'') JNull),
           (u ''trading_symbol'', field_or ci (u ''ticker'') JNull),
           (u ''legal_domicile_country'', field_or ci (u ''domicile_country'') JNull),
           (u ''sector_industry'', field_or ci (u ''sector'') JNull)]),
        (u ''geographic_exposure'', JObj
          [(u ''regions'', JObj geo),
           (u ''regions_of_activity'', JStr (join (u '', '') (map fst geo)))]),
        (u ''business_mix'', JObj
          [(u ''segments'', bs)]),
        (u ''supply_chain_and_commitments'', JObj
          [(u ''suppliers_sector_industries'',
              field_or sc (u ''major_suppliers_industries'') (JArr [])),
           (u ''key_countries'', field_or sc (u ''key_supplier_countries'') (JArr [])),
           (u ''purchase_obligations_usd'', field_or kf (u ''purchase_obligations_usd'') JNull)]),
        (u ''tax_and_innovation'', JObj
          [(u ''r_and_d_expense_usd'', field_or kf (u ''r_and_d_expense_usd'') JNull)])])"
proof -
  obtain items where d: "data = JObj items"
    using section_of_is_dict [OF assms(1)] by blast
  have g: "dict_get data (u ''company_info'') (JObj []) = Inr (JObj ci)"
    "dict_get data (u ''geographic_revenue'') (JObj []) = Inr (JObj geo)"
    "dict_get data (u ''supply_chain'') (JObj []) = Inr (JObj sc)"
    "dict_get data (u ''key_financials'') (JObj []) = Inr (JObj kf)"
    using assms by (simp_all add: section_of_dict_get)
  have o: "dict_get data (u ''business_segments'') (JObj [])
             = Inr (field_or items (u ''business_segments'') (JObj []))"
    "dict_get data (u ''metadata'') (JObj []) = Inr (field_or items (u ''metadata'') (JObj []))"
    by (simp_all add: d dict_get_JObj)
  show ?thesis
    unfolding normalize_structure_def g o
    by (simp add: dict_get_JObj dict_keys_def)
qed

lemma region_keys_absent:
  assumes "key \<in> snd ` set REGION_KEYS"
  shows "key \<noteq> u ''regions'' \<and> key \<noteq> u ''regions_of_activity''"
  using assms by (auto simp: REGION_KEYS_def u_def)

lemma geography_parts_absent:
  "geography_parts (JObj [(u ''regions'', a), (u ''regions_of_activity'', b)]) REGION_KEYS = Inr []"
  by (simp add: REGION_KEYS_def dict_get_def u_def)

text \<open>
  C7, as the code has it. For a record that is a dict whose \<open>company_info\<close>,
  \<open>geographic_revenue\<close>, \<open>supply_chain\<close> and \<open>key_financials\<close> entries are each absent
  or a dict, \<open>normalize_structure\<close> raises nothing; the profile's \<open>geographic_revenue\<close>
  (and the legacy \<open>regions\<close>) is the record's own mapping, items and order unchanged;
  a legacy field holds the value of its alias and, when the alias is absent, the default
  of the lookup: null for \<open>company_name\<close>, \<open>trading_symbol\<close>,
  \<open>legal_domicile_country\<close>, \<open>sector_industry\<close>, \<open>purchase_obligations_usd\<close> and
  \<open>r_and_d_expense_usd\<close>, the empty list for \<open>suppliers_sector_industries\<close> and
  \<open>key_countries\<close>. The five fixed-region revenue-share keys are never written, so
  \<open>format_company_profile\<close> reads null for each of them and keeps no region.
\<close>

theorem normalize_structure_keeps_maps:
  assumes "section_of data (u ''company_info'') = Some ci"
    and "section_of data (u ''geographic_revenue'') = Some geo"
    and "section_of data (u ''supply_chain'') = Some sc"
    and "section_of data (u ''key_financials'') = Some kf"
  shows "(\<exists>profile. normalize_structure data = Inr profile)
    \<and> normalized_field data [u ''geographic_revenue''] = Some (JObj geo)
    \<and> normalized_field data [u ''geographic_exposure'', u ''regions''] = Some (JObj geo)
    \<and> normalized_field data [u ''identity_and_jurisdiction'', u ''company_name'']
        = Some (field_or ci (u ''name'') JNull)
    \<and> normalized_field data [u ''identity_and_jurisdiction'', u ''trading_symbol'']
        = Some (field_or ci (u ''ticker'') JNull)
    \<and> normalized_field data [u ''identity_and_jurisdiction'', u ''legal_domicile_country'']
        = Some (field_or ci (u ''domicile_country'') JNull)
    \<and> normalized_field data [u ''identity_and_jurisdiction'', u ''sector_industry'']
        = Some (field_or ci (u ''sector'') JNull)
    \<and> normalized_field data [u ''supply_chain_and_commitments'', u ''suppliers_sector_industries'']
        = Some (field_or sc (u ''major_suppliers_industries'') (JArr []))
    \<and> normalized_field data [u ''supply_chain_and_commitments'', u ''key_countries'']
        = Some (field_or sc (u ''key_supplier_countries'') (JArr []))
    \<and> normalized_field data [u ''supply_chain_and_commitments'', u ''purchase_obligations_usd'']
        = Some (field_or kf (u ''purchase_obligations_usd'') JNull)
    \<and> normalized_field data [u ''tax_and_innovation'', u ''r_and_d_expense_usd'']
        = Some (field_or kf (u ''r_and_d_expense_usd'') JNull)
    \<and> (\<forall>key \<in> snd ` set REGION_KEYS.
          normalized_field data [u ''geographic_exposure'', key] = None)
    \<and> seq (normalize_structure data) profile_geography = Inr []"
proof -
  obtain bs md profile where p: "normalize_structure data = Inr profile"
    and profile: "profile = JObj
       [(u ''company_info'', JObj ci),
        (u ''geographic_revenue'', JObj geo),
        (u ''business_segments'', bs),
        (u ''key_financials'', JObj kf),
        (u ''supply_chain'', JObj sc),
        (u ''metadata'', md),
        (u ''identity_and_jurisdiction'', JObj
          [(u ''company_name'', field_or ci (u ''name'') JNull),
           (u ''trading_symbol'', field_or ci (u ''ticker'') JNull),
           (u ''legal_domicile_country'', field_or ci (u ''domicile_country'') JNull),
           (u ''sector_industry'', field_or ci (u ''sector'') JNull)]),
        (u ''geographic_exposure'', JObj
          [(u ''regions'', JObj geo),
           (u ''regions_of_activity'', JStr (join (u '', '') (map fst geo)))]),
        (u ''business_mix'', JObj
          [(u ''segments'', bs)]),
        (u ''supply_chain_and_commitments'', JObj
          [(u ''suppliers_sector_industries'',
              field_or sc (u ''major_suppliers_industries'') (JArr [])),
           (u ''key_countries'', field_or sc (u ''key_supplier_countries'') (JArr [])),
           (u ''purchase_obligations_usd'', field_or kf (u ''purchase_obligations_usd'') JNull)]),
        (u ''tax_and_innovation'', JObj
          [(u ''r_and_d_expense_usd'', field_or kf (u ''r_and_d_expense_usd'') JNull)])]"
    using normalize_structure_sections [OF assms] by blast
  have ge: "lookup_path profile [u ''geographic_exposure'']
      = Some (JObj [(u ''regions'', JObj geo),
                    (u ''regions_of_activity'', JStr (join (u '', '') (map fst geo)))])"
    by (simp add: profile u_def)
  have regions: "\<forall>key \<in> snd ` set REGION_KEYS.
      normalized_field data [u ''geographic_exposure'', key] = None"
  proof
    fix key assume k: "key \<in> snd ` set REGION_KEYS"
    have "lookup_path profile [u ''geographic_exposure'', key] = None"
      using region_keys_absent [OF k] by (simp add: profile u_def)
    then show "normalized_field data [u ''geographic_exposure'', key] = None"
      by (simp add: normalized_field_def p)
  qed
  have geography: "seq (normalize_structure data) profile_geography = Inr []"
    unfolding p seq_Inr profile_geography_def profile
    using geography_parts_absent [of "JObj geo" "JStr (join (u '', '') (map fst geo))"]
    by (simp add: dict_get_def u_def)
  have entries:
    "normalized_field data [u ''geographic_revenue''] = Some (JObj geo)"
    "normalized_field data [u ''geographic_exposure'', u ''regions''] = Some (JObj geo)"
    "normalized_field data [u ''identity_and_jurisdiction'', u ''company_name'']
        = Some (field_or ci (u ''name'') JNull)"
    "normalized_field data [u ''identity_and_jurisdiction'', u ''trading_symbol'']
        = Some (field_or ci (u ''ticker'') JNull)"
    "normalized_field data [u ''identity_and_jurisdiction'', u ''legal_domicile_country'']
        = Some (field_or ci (u ''domicile_country'') JNull)"
    "normalized_field data [u ''identity_and_jurisdiction'', u ''sector_industry'']
        = Some (field_or ci (u ''sector'') JNull)"
    "normalized_field data [u ''supply_chain_and_commitments'', u ''suppliers_sector_industries'']
        = Some (field_or sc (u ''major_suppliers_industries'') (JArr []))"
    "normalized_field data [u ''supply_chain_and_commitments'', u ''key_countries'']
        = Some (field_or sc (u ''key_supplier_countries'') (JArr []))"
    "normalized_field data [u ''supply_chain_and_commitments'', u ''purchase_obligations_usd'']
        = Some (field_or kf (u ''purchase_obligations_usd'') JNull)"
    "normalized_field data [u ''tax_and_innovation'', u ''r_and_d_expense_usd'']
        = Some (field_or kf (u ''r_and_d_expense_usd'') JNull)"
    by (simp_all add: normalized_field_def p profile u_def)
  show ?thesis
    using p regions geography entries by blast
qed

theorem normalize_structure_keeps_maps_witness:
  "section_of emea_apac (u ''company_info'') = Some []
   \<and> section_of emea_apac (u ''geographic_revenue'')
       = Some [(u ''EMEA'', JInt 40), (u ''APAC'', JInt 60)]
   \<and> section_of emea_apac (u ''supply_chain'') = Some []
   \<and> section_of emea_apac (u ''key_financials'') = Some []
   \<and> normalized_field emea_apac [u ''geographic_revenue'']
       = Some (JObj [(u ''EMEA'', JInt 40), (u ''APAC'', JInt 60)])
   \<and> normalized_field emea_apac [u ''identity_and_jurisdiction'', u ''company_name''] = Some JNull
   \<and> normalized_field emea_apac [u ''tax_and_innovation'', u ''r_and_d_expense_usd''] = Some JNull
   \<and> normalized_field emea_apac [u ''supply_chain_and_commitments'', u ''key_countries'']
       = Some (JArr [])
   \<and> normalized_field emea_apac [u ''geographic_exposure'', u ''americas_revenue_share_prct_2024'']
       = None
   \<and> seq (normalize_structure emea_apac) profile_geography = Inr []"
proof -
  have h1: "section_of emea_apac (u ''company_info'') = Some []"
    and h2: "section_of emea_apac (u ''geographic_revenue'')
       = Some [(u ''EMEA'', JInt 40), (u ''APAC'', JInt 60)]"
    and h3: "section_of emea_apac (u ''supply_chain'') = Some []"
    and h4: "section_of emea_apac (u ''key_financials'') = Some []"
    by (simp_all add: section_of_def emea_apac_def u_def)
  have k: "u ''americas_revenue_share_prct_2024'' \<in> snd ` set REGION_KEYS"
    by (simp add: REGION_KEYS_def)
  note t = normalize_structure_keeps_maps [OF h1 h2 h3 h4]
  from t have "\<forall>key \<in> snd ` set REGION_KEYS.
      normalized_field emea_apac [u ''geographic_exposure'', key] = None"
    by simp
  with k have americas:
    "normalized_field emea_apac [u ''geographic_exposure'', u ''americas_revenue_share_prct_2024'']
       = None"
    by blast
  from t have rest:
    "normalized_field emea_apac [u ''geographic_revenue'']
       = Some (JObj [(u ''EMEA'', JInt 40), (u ''APAC'', JInt 60)])"
    "normalized_field emea_apac [u ''identity_and_jurisdiction'', u ''company_name'']
       = Some (field_or [] (u ''name'') JNull)"
    "normalized_field emea_apac [u ''tax_and_innovation'', u ''r_and_d_expense_usd'']
       = Some (field_or [] (u ''r_and_d_expense_usd'') JNull)"
    "normalized_field emea_apac [u ''supply_chain_and_commitments'', u ''key_countries'']
       = Some (field_or [] (u ''key_supplier_countries'') (JArr []))"
    "seq (normalize_structure emea_apac) profile_geography = Inr []"
    by simp_all
  show ?thesis
    using h1 h2 h3 h4 americas rest by (simp add: field_or_def)
qed

text \<open>
  The claim as the specification words it: every legacy field whose alias is absent is
  null rather than an error. On the empty record the alias of
  \<open>suppliers_sector_industries\<close> is absent and the field is the empty list; and on a
  record whose \<open>company_info\<close> is a string, where the alias \<open>name\<close> is absent too, the
  function raises.
\<close>

theorem normalize_structure_null_counterexample:
  "normalized_field (JObj []) [u ''supply_chain_and_commitments'', u ''suppliers_sector_industries'']
     = Some (JArr [])
   \<and> normalized_field (JObj []) [u ''supply_chain_and_commitments'', u ''suppliers_sector_industries'']
     \<noteq> Some JNull
   \<and> normalize_structure (JObj [(u ''company_info'', JStr (u ''Apple''))]) = Inl AttributeError"
  by (simp add: normalized_field_def normalize_structure_def dict_get_def dict_keys_def u_def)

section \<open>The validation gate\<close>

lemma validate_regulatory_document_iff:
  "fst (validate_regulatory_document lower text)
     \<longleftrightarrow> 50 \<le> length text
         \<and> (\<exists>keyword \<in> set REGULATORY_KEYWORDS. contains (lower text) keyword)"
proof (cases "length text < 50")
  case True
  then show ?thesis
    by (simp add: validate_regulatory_document_def MIN_DOCUMENT_LENGTH_def)
next
  case False
  then have "text \<noteq> []" by auto
  with False show ?thesis
    by (auto simp: validate_regulatory_document_def MIN_DOCUMENT_LENGTH_def
        MIN_KEYWORD_MATCHES_def Let_def filter_empty_conv)
qed

lemma ascii_lower_occurrence:
  assumes "sublist occurrence s"
  shows "contains (ascii_lower s) (ascii_lower occurrence)"
  using assms unfolding contains_def ascii_lower_def by (rule map_mono_sublist)

text \<open>
  C8. A text shorter than 50 characters is rejected whatever it contains, and a text of
  50 characters or more in which at least one keyword occurs, the case of the letters
  put aside (the keyword is a substring of the lower-cased text), is accepted. These
  are the only accepted texts. With the lower-casing of ASCII letters, an occurrence of
  a keyword in any mix of upper and lower case is enough.
\<close>

theorem validate_regulatory_document_gate:
  "(length text < 50 \<longrightarrow> \<not> fst (validate_regulatory_document lower text))
   \<and> (50 \<le> length text
        \<and> (\<exists>keyword \<in> set REGULATORY_KEYWORDS. contains (lower text) keyword)
       \<longrightarrow> validate_regulatory_document lower text = (True, Document_valide))
   \<and> (fst (validate_regulatory_document lower text)
        \<longrightarrow> 50 \<le> length text
          \<and> (\<exists>keyword \<in> set REGULATORY_KEYWORDS. contains (lower text) keyword))
   \<and> (50 \<le> length text \<and> sublist occurrence text
        \<and> ascii_lower occurrence \<in> set REGULATORY_KEYWORDS
       \<longrightarrow> validate_regulatory_document ascii_lower text = (True, Document_valide))"
proof -
  have accepted: "validate_regulatory_document f text = (True, Document_valide)"
    if "fst (validate_regulatory_document f text)" for f
    using that
    by (auto simp: validate_regulatory_document_def Let_def split: if_splits)
  have ascii: "fst (validate_regulatory_document ascii_lower text)"
    if "50 \<le> length text" and "sublist occurrence text"
      and "ascii_lower occurrence \<in> set REGULATORY_KEYWORDS"
    unfolding validate_regulatory_document_iff
    using that ascii_lower_occurrence [of occurrence "text"] by blast
  note iff = validate_regulatory_document_iff [of lower "text"]
  have c1: "length text < 50 \<longrightarrow> \<not> fst (validate_regulatory_document lower text)"
    unfolding iff by simp
  have c2: "50 \<le> length text
        \<and> (\<exists>keyword \<in> set REGULATORY_KEYWORDS. contains (lower text) keyword)
       \<longrightarrow> validate_regulatory_document lower text = (True, Document_valide)"
    using accepted [of lower] iff by simp
  have c3: "fst (validate_regulatory_document lower text)
        \<longrightarrow> 50 \<le> length text
          \<and> (\<exists>keyword \<in> set REGULATORY_KEYWORDS. contains (lower text) keyword)"
    unfolding iff by simp
  have c4: "50 \<le> length text \<and> sublist occurrence text
        \<and> ascii_lower occurrence \<in> set REGULATORY_KEYWORDS
       \<longrightarrow> validate_regulatory_document ascii_lower text = (True, Document_valide)"
    using accepted [of ascii_lower] ascii by simp
  show ?thesis
    using c1 c2 c3 c4 by (intro conjI)
qed

theorem validate_regulatory_document_gate_witness:
  "length text40 = 40
   \<and> (\<exists>keyword \<in> set REGULATORY_KEYWORDS. contains (ascii_lower text40) keyword)
   \<and> \<not> fst (validate_regulatory_document ascii_lower text40)
   \<and> length text200 = 200
   \<and> (\<exists>keyword \<in> set REGULATORY_KEYWORDS. contains (ascii_lower text200) keyword)
   \<and> sublist (u ''Directive'') text200
   \<and> ascii_lower (u ''Directive'') \<in> set REGULATORY_KEYWORDS
   \<and> validate_regulatory_document ascii_lower text200 = (True, Document_valide)"
proof -
  have occ: "sublist (u ''Directive'') text200"
    by (simp add: text200_def)
  have low: "ascii_lower (u ''Directive'') = u ''directive''"
    by (simp add: ascii_lower_def u_def)
  have len40: "length text40 = 40"
    by (simp add: text40_def u_def)
  have len200: "length text200 = 200"
    by (simp add: text200_def u_def)
  have member: "u ''regulation'' \<in> set REGULATORY_KEYWORDS"
    "u ''directive'' \<in> set REGULATORY_KEYWORDS"
    by (simp_all add: REGULATORY_KEYWORDS_def)
  have "ascii_lower text40 = u ''regulation'' @ u ''regulationregulationregulation''"
    by (simp add: text40_def ascii_lower_def u_def)
  then have in40: "contains (ascii_lower text40) (u ''regulation'')"
    by (simp add: contains_def)
  have "ascii_lower text200 = replicate 191 120 @ u ''directive''"
    by (simp add: text200_def ascii_lower_def u_def)
  then have in200: "contains (ascii_lower text200) (u ''directive'')"
    by (simp add: contains_def)
  have k40: "\<exists>keyword \<in> set REGULATORY_KEYWORDS. contains (ascii_lower text40) keyword"
    using member(1) in40 by blast
  have k200: "\<exists>keyword \<in> set REGULATORY_KEYWORDS. contains (ascii_lower text200) keyword"
    using member(2) in200 by blast
  show ?thesis
    using validate_regulatory_document_gate [of text40 ascii_lower "[]"]
      validate_regulatory_document_gate [of text200 ascii_lower "u ''Directive''"]
      len40 len200 k40 k200 occ low member(2)
    by simp
qed

section \<open>Document ingestion\<close>
















section \<open>The retry budget of the gateway\<close>

lemma range_MAX_RETRIES: "[0..<MAX_RETRIES] = [0, 1]"
  by (simp add: MAX_RETRIES_def upt_rec)

lemma range_MAX_RETRIES_v2: "[0..<MAX_RETRIES_v2] = [0, 1, 2]"
  by (simp add: MAX_RETRIES_v2_def upt_rec)

lemma below_two: "k < (2::nat) \<longleftrightarrow> k = 0 \<or> k = 1"
  by auto

lemma below_three: "k < (3::nat) \<longleftrightarrow> k = 0 \<or> k = 1 \<or> k = 2"
  by auto

lemma call_bedrock_cases:
  "call_bedrock loads rs w =
     (case attempt loads (rs 0) of
        Inr r \<Rightarrow> (Inr r, invoke w)
      | Inl e0 \<Rightarrow>
          (case attempt loads (rs 1) of
             Inr r \<Rightarrow> (Inr r, invoke (sleep 1 (invoke w)))
           | Inl e1 \<Rightarrow> (Inr JNull, print_line (Bedrock_error e1) (invoke (sleep 1 (invoke w))))))"
  unfolding call_bedrock_def range_MAX_RETRIES
  by (simp add: MAX_RETRIES_def Let_def split: sum.splits)

lemma call_bedrock_returns: "\<exists>r. fst (call_bedrock loads rs w) = Inr r"
  by (simp add: call_bedrock_cases split: sum.splits)

lemma call_bedrock_bound:
  "invocations (snd (call_bedrock loads rs w)) \<le> invocations w + MAX_RETRIES"
  by (simp add: call_bedrock_cases MAX_RETRIES_def split: sum.splits)

lemma call_bedrock_exhausted:
  assumes "\<forall>k < MAX_RETRIES. isl (attempt loads (rs k))"
  shows "fst (call_bedrock loads rs w) = Inr JNull"
    and "invocations (snd (call_bedrock loads rs w)) = invocations w + MAX_RETRIES"
proof -
  from assms have "isl (attempt loads (rs 0))" and "isl (attempt loads (rs 1))"
    by (simp_all add: MAX_RETRIES_def)
  then show "fst (call_bedrock loads rs w) = Inr JNull"
    and "invocations (snd (call_bedrock loads rs w)) = invocations w + MAX_RETRIES"
    by (auto simp: call_bedrock_cases MAX_RETRIES_def isl_def)
qed

lemma call_bedrock_first_success:
  assumes "k < MAX_RETRIES" and "\<forall>j < k. isl (attempt loads (rs j))"
    and "attempt loads (rs k) = Inr r"
  shows "fst (call_bedrock loads rs w) = Inr r
    \<and> invocations (snd (call_bedrock loads rs w)) = invocations w + Suc k"
proof -
  from assms(1) consider "k = 0" | "k = 1"
    unfolding MAX_RETRIES_def below_two by blast
  then show ?thesis
  proof cases
    case 1
    with assms(3) show ?thesis
      by (simp add: call_bedrock_cases)
  next
    case 2
    with assms(2) have "isl (attempt loads (rs 0))" by simp
    with 2 assms(3) show ?thesis
      by (auto simp: call_bedrock_cases isl_def)
  qed
qed

lemma attempt_failures:
  "rs k = Inl e \<Longrightarrow> attempt loads (rs k) = Inl e"
  "rs k = Inr body \<Longrightarrow> parse_completion loads body = None
     \<Longrightarrow> attempt loads (rs k) = Inl JSONDecodeError"
  "rs k = Inl e \<Longrightarrow> attempt_v2 loads (rs k) = Inl e"
  "rs k = Inr body \<Longrightarrow> parse_completion_v2 loads body = None
     \<Longrightarrow> attempt_v2 loads (rs k) = Inl JSONDecodeError"
  by (simp_all add: attempt_def attempt_v2_def)

lemma call_bedrock_v2_summary:
  "(case attempt_v2 loads (rs 0) of
      Inr r \<Rightarrow> fst (call_bedrock_v2 lower loads rs w) = Inr r
               \<and> invocations (snd (call_bedrock_v2 lower loads rs w)) = invocations w + 1
    | Inl e0 \<Rightarrow>
        (case attempt_v2 loads (rs 1) of
           Inr r \<Rightarrow> fst (call_bedrock_v2 lower loads rs w) = Inr r
                    \<and> invocations (snd (call_bedrock_v2 lower loads rs w)) = invocations w + 2
         | Inl e1 \<Rightarrow>
             (case attempt_v2 loads (rs 2) of
                Inr r \<Rightarrow> fst (call_bedrock_v2 lower loads rs w) = Inr r
                         \<and> invocations (snd (call_bedrock_v2 lower loads rs w)) = invocations w + 3
              | Inl e2 \<Rightarrow> fst (call_bedrock_v2 lower loads rs w) = Inr JNull
                         \<and> invocations (snd (call_bedrock_v2 lower loads rs w)) = invocations w + 3)))"
  unfolding call_bedrock_v2_def range_MAX_RETRIES_v2
  by (simp add: MAX_RETRIES_v2_def Let_def split: sum.splits)

lemma call_bedrock_v2_returns: "\<exists>r. fst (call_bedrock_v2 lower loads rs w) = Inr r"
  using call_bedrock_v2_summary [of lower loads rs w]
  by (auto split: sum.splits)

lemma call_bedrock_v2_bound:
  "invocations (snd (call_bedrock_v2 lower loads rs w)) \<le> invocations w + MAX_RETRIES_v2"
  using call_bedrock_v2_summary [of lower loads rs w]
  by (auto simp: MAX_RETRIES_v2_def split: sum.splits)

lemma call_bedrock_v2_exhausted:
  assumes "\<forall>k < MAX_RETRIES_v2. isl (attempt_v2 loads (rs k))"
  shows "fst (call_bedrock_v2 lower loads rs w) = Inr JNull
    \<and> invocations (snd (call_bedrock_v2 lower loads rs w)) = invocations w + MAX_RETRIES_v2"
proof -
  from assms have "isl (attempt_v2 loads (rs 0))" and "isl (attempt_v2 loads (rs 1))"
    and "isl (attempt_v2 loads (rs 2))"
    by (simp_all add: MAX_RETRIES_v2_def)
  then show ?thesis
    using call_bedrock_v2_summary [of lower loads rs w]
    by (auto simp: MAX_RETRIES_v2_def isl_def)
qed

lemma call_bedrock_v2_first_success:
  assumes "k < MAX_RETRIES_v2" and "\<forall>j < k. isl (attempt_v2 loads (rs j))"
    and "attempt_v2 loads (rs k) = Inr r"
  shows "fst (call_bedrock_v2 lower loads rs w) = Inr r
    \<and> invocations (snd (call_bedrock_v2 lower loads rs w)) = invocations w + Suc k"
proof -
  from assms(1) consider "k = 0" | "k = 1" | "k = 2"
    unfolding MAX_RETRIES_v2_def below_three by blast
  then show ?thesis
  proof cases
    case 1
    with assms(3) show ?thesis
      using call_bedrock_v2_summary [of lower loads rs w] by simp
  next
    case 2
    with assms(2) have "isl (attempt_v2 loads (rs 0))" by simp
    with 2 assms(3) show ?thesis
      using call_bedrock_v2_summary [of lower loads rs w] by (auto simp: isl_def)
  next
    case 3
    with assms(2) have "isl (attempt_v2 loads (rs 0))" and "isl (attempt_v2 loads (rs 1))"
      by simp_all
    with 3 assms(3) show ?thesis
      using call_bedrock_v2_summary [of lower loads rs w] by (auto simp: isl_def)
  qed
qed

text \<open>
  C3. An attempt fails when the service raises and equally when the completion, fences
  removed, does not decode: both end in the handler, and the next attempt, if any is
  left, follows. \<open>call_bedrock\<close> never raises and never sends more than
  \<open>MAX_RETRIES\<close> requests. When every attempt fails, for whichever of the two reasons,
  it has sent exactly \<open>MAX_RETRIES\<close> requests and returns \<open>None\<close>; when attempt \<open>k\<close> is
  the first to succeed, it has sent \<open>k + 1\<close> requests and returns that result. This holds
  in run_analysis.py (two attempts) and in extract_10k_v2.py (three attempts).
\<close>

theorem call_bedrock_retry_budget:
  "(\<exists>result. fst (call_bedrock loads rs w) = Inr result)
   \<and> invocations (snd (call_bedrock loads rs w)) \<le> invocations w + MAX_RETRIES
   \<and> ((\<forall>j < MAX_RETRIES. isl (attempt loads (rs j)))
        \<longrightarrow> fst (call_bedrock loads rs w) = Inr JNull
          \<and> invocations (snd (call_bedrock loads rs w)) = invocations w + MAX_RETRIES)
   \<and> (k < MAX_RETRIES \<and> (\<forall>j < k. isl (attempt loads (rs j))) \<and> attempt loads (rs k) = Inr r
        \<longrightarrow> fst (call_bedrock loads rs w) = Inr r
          \<and> invocations (snd (call_bedrock loads rs w)) = invocations w + Suc k)
   \<and> (rs k = Inl e \<longrightarrow> attempt loads (rs k) = Inl e \<and> attempt_v2 loads (rs k) = Inl e)
   \<and> (rs k = Inr body \<and> parse_completion loads body = None
        \<longrightarrow> attempt loads (rs k) = Inl JSONDecodeError)
   \<and> (rs k = Inr body \<and> parse_completion_v2 loads body = None
        \<longrightarrow> attempt_v2 loads (rs k) = Inl JSONDecodeError)
   \<and> (\<exists>result. fst (call_bedrock_v2 lower loads rs w) = Inr result)
   \<and> invocations (snd (call_bedrock_v2 lower loads rs w)) \<le> invocations w + MAX_RETRIES_v2
   \<and> ((\<forall>j < MAX_RETRIES_v2. isl (attempt_v2 loads (rs j)))
        \<longrightarrow> fst (call_bedrock_v2 lower loads rs w) = Inr JNull
          \<and> invocations (snd (call_bedrock_v2 lower loads rs w)) = invocations w + MAX_RETRIES_v2)
   \<and> (k < MAX_RETRIES_v2 \<and> (\<forall>j < k. isl (attempt_v2 loads (rs j)))
          \<and> attempt_v2 loads (rs k) = Inr r2
        \<longrightarrow> fst (call_bedrock_v2 lower loads rs w) = Inr r2
          \<and> invocations (snd (call_bedrock_v2 lower loads rs w)) = invocations w + Suc k)"
  using call_bedrock_returns [of loads rs w] call_bedrock_bound [of loads rs w]
    call_bedrock_exhausted [of loads rs w] call_bedrock_first_success [of k loads rs r w]
    attempt_failures [of rs k _ loads] attempt_failures(2) [of rs k body loads]
    attempt_failures(4) [of rs k body loads]
    call_bedrock_v2_returns [of lower loads rs w] call_bedrock_v2_bound [of lower loads rs w]
    call_bedrock_v2_exhausted [of loads rs lower w]
    call_bedrock_v2_first_success [of k loads rs r2 lower w]
  by blast

theorem call_bedrock_retry_budget_witness:
  "garbage_service 0 = Inr (u ''not json'')
   \<and> parse_completion demo_loads (u ''not json'') = None
   \<and> attempt demo_loads (garbage_service 0) = Inl JSONDecodeError
   \<and> attempt demo_loads (garbage_service 1) = Inl JSONDecodeError
   \<and> fst (call_bedrock demo_loads garbage_service world0) = Inr JNull
   \<and> invocations (snd (call_bedrock demo_loads garbage_service world0)) = 2
   \<and> flaky_service 0 = Inl (ServiceError (u ''Read timed out''))
   \<and> attempt demo_loads (flaky_service 0) = Inl (ServiceError (u ''Read timed out''))
   \<and> attempt demo_loads (flaky_service 1) = Inr (JObj [(u ''a'', JInt 1)])
   \<and> fst (call_bedrock demo_loads flaky_service world0) = Inr (JObj [(u ''a'', JInt 1)])
   \<and> invocations (snd (call_bedrock demo_loads flaky_service world0)) = 2
   \<and> attempt_v2 demo_loads (garbage_service 0) = Inl JSONDecodeError
   \<and> attempt_v2 demo_loads (garbage_service 1) = Inl JSONDecodeError
   \<and> attempt_v2 demo_loads (garbage_service 2) = Inl JSONDecodeError
   \<and> fst (call_bedrock_v2 ascii_lower demo_loads garbage_service world0) = Inr JNull
   \<and> invocations (snd (call_bedrock_v2 ascii_lower demo_loads garbage_service world0)) = 3
   \<and> attempt_v2 demo_loads (flaky_service 0) = Inl (ServiceError (u ''Read timed out''))
   \<and> isl (attempt_v2 demo_loads (flaky_service 1)) = False
   \<and> fst (call_bedrock_v2 ascii_lower demo_loads flaky_service world0)
       = attempt_v2 demo_loads (flaky_service 1)
   \<and> invocations (snd (call_bedrock_v2 ascii_lower demo_loads flaky_service world0)) = 2"
proof -
  have g: "garbage_service j = Inr (u ''not json'')" for j
    by (simp add: garbage_service_def)
  have p: "parse_completion demo_loads (u ''not json'') = None"
    "parse_completion_v2 demo_loads (u ''not json'') = None"
    unfolding parse_completion_def parse_completion_v2_def clean_unfenced_examples
    by (simp_all add: demo_loads_def u_def)
  have ga: "attempt demo_loads (garbage_service j) = Inl JSONDecodeError"
    "attempt_v2 demo_loads (garbage_service j) = Inl JSONDecodeError" for j
    by (simp_all add: attempt_def attempt_v2_def g p)
  have f0: "flaky_service 0 = Inl (ServiceError (u ''Read timed out''))"
    and f1: "flaky_service (Suc 0) = Inr (u ''{\"a\":1}'')"
    by (simp_all add: flaky_service_def)
  have q: "parse_completion demo_loads (u ''{\"a\":1}'') = Some (JObj [(u ''a'', JInt 1)])"
    "parse_completion_v2 demo_loads (u ''{\"a\":1}'') = Some (JObj [(u ''a'', JInt 1)])"
    unfolding parse_completion_def parse_completion_v2_def clean_unfenced_examples
    by (simp_all add: demo_loads_def)
  have fa: "attempt demo_loads (flaky_service 0) = Inl (ServiceError (u ''Read timed out''))"
    "attempt_v2 demo_loads (flaky_service 0) = Inl (ServiceError (u ''Read timed out''))"
    "attempt demo_loads (flaky_service (Suc 0)) = Inr (JObj [(u ''a'', JInt 1)])"
    by (simp_all add: attempt_def attempt_v2_def f0 f1 q)
  have "attempt_v2 demo_loads (flaky_service (Suc 0))
      = normalize_structure (JObj [(u ''a'', JInt 1)])"
    by (simp add: attempt_v2_def f1 q)
  also have "\<dots> = Inr (projr (normalize_structure (JObj [(u ''a'', JInt 1)])))"
    by (simp add: normalize_structure_def dict_get_def dict_keys_def u_def)
  finally have fb: "attempt_v2 demo_loads (flaky_service (Suc 0))
      = Inr (projr (normalize_structure (JObj [(u ''a'', JInt 1)])))" .
  have e2: "\<forall>j < MAX_RETRIES. isl (attempt demo_loads (garbage_service j))"
    by (simp add: MAX_RETRIES_def below_two ga)
  have e3: "\<forall>j < MAX_RETRIES_v2. isl (attempt_v2 demo_loads (garbage_service j))"
    by (simp add: MAX_RETRIES_v2_def below_three ga)
  have s1: "\<forall>j < (1::nat). isl (attempt demo_loads (flaky_service j))"
    "\<forall>j < (1::nat). isl (attempt_v2 demo_loads (flaky_service j))"
    by (simp_all add: fa)
  have w0: "invocations world0 = 0"
    by (simp add: world0_def)
  note exhausted = call_bedrock_retry_budget
    [of demo_loads garbage_service world0 0 JNull JSONDecodeError "u ''not json''" ascii_lower JNull]
  note recovered = call_bedrock_retry_budget
    [of demo_loads flaky_service world0 1 "JObj [(u ''a'', JInt 1)]"
        "ServiceError (u ''Read timed out'')" "u ''x''" ascii_lower
        "projr (normalize_structure (JObj [(u ''a'', JInt 1)]))"]
  from exhausted e2 e3 have x:
    "fst (call_bedrock demo_loads garbage_service world0) = Inr JNull"
    "invocations (snd (call_bedrock demo_loads garbage_service world0)) = 2"
    "fst (call_bedrock_v2 ascii_lower demo_loads garbage_service world0) = Inr JNull"
    "invocations (snd (call_bedrock_v2 ascii_lower demo_loads garbage_service world0)) = 3"
    by (simp_all add: w0 MAX_RETRIES_def MAX_RETRIES_v2_def)
  from recovered s1 fa fb have y:
    "fst (call_bedrock demo_loads flaky_service world0) = Inr (JObj [(u ''a'', JInt 1)])"
    "invocations (snd (call_bedrock demo_loads flaky_service world0)) = 2"
    "fst (call_bedrock_v2 ascii_lower demo_loads flaky_service world0)
       = attempt_v2 demo_loads (flaky_service 1)"
    "invocations (snd (call_bedrock_v2 ascii_lower demo_loads flaky_service world0)) = 2"
    by (simp_all add: w0 MAX_RETRIES_def MAX_RETRIES_v2_def)
  show ?thesis
    using g p ga f0 fa fb x y by simp
qed

section \<open>Isolation of a failed task\<close>

subsection \<open>extract_10k_v2.py\<close>

text \<open>
  The worker of extract_10k_v2.py never raises: it returns a record and adds one to
  exactly one of the two counters, \<open>success\<close> for a success record and \<open>failed\<close> for a
  failure record.
\<close>

lemma process_single_10k_counts:
  "\<exists>result p w. process_single_10k lower loads task (p0, w0) = (Inr result, p, w)
     \<and> (is_success result \<longrightarrow> success p = success p0 + 1 \<and> failed p = failed p0)
     \<and> (\<not> is_success result \<longrightarrow> success p = success p0 \<and> failed p = failed p0 + 1)"
  by (simp add: process_single_10k_def process_single_10k_try_def format_extraction_prompt_def
      create_error_result_def Let_def)

text \<open>
  With the template as it is written the prompt cannot be formatted, so the gateway is
  never reached and every task ends as a failure record.
\<close>

lemma process_single_10k_fails:
  "\<exists>error. process_single_10k lower loads task (p0, w0)
     = (Inr (Not_extracted (ticker task) (html_path task) error),
        p0\<lparr>failed := failed p0 + 1\<rparr>,
        if extracted_text task = [] then w0 else log_error (ticker task) KeyError w0)"
  by (simp add: process_single_10k_def process_single_10k_try_def format_extraction_prompt_def
      create_error_result_def Let_def)

lemma run_workers_10k_outcomes:
  "\<exists>rs p w. run_workers_10k lower loads tasks (p0, w0) = (map Inr rs, p, w)
     \<and> length rs = length tasks
     \<and> map (\<lambda>r. case r of Extracted t f d \<Rightarrow> t | Not_extracted t f e \<Rightarrow> t) rs = map ticker tasks
     \<and> success p + failed p = success p0 + failed p0 + length tasks
     \<and> failed p = failed p0 + length (filter (\<lambda>r. \<not> is_success r) rs)"
proof (induction tasks arbitrary: p0 w0)
  case Nil
  show ?case by (rule exI [of _ "[]"]) simp
next
  case (Cons task tasks)
  obtain error where first: "process_single_10k lower loads task (p0, w0)
     = (Inr (Not_extracted (ticker task) (html_path task) error),
        p0\<lparr>failed := failed p0 + 1\<rparr>,
        if extracted_text task = [] then w0 else log_error (ticker task) KeyError w0)"
    using process_single_10k_fails by blast
  define w1 where "w1 = (if extracted_text task = [] then w0 else log_error (ticker task) KeyError w0)"
  obtain rs p w where rest:
    "run_workers_10k lower loads tasks (p0\<lparr>failed := failed p0 + 1\<rparr>, w1) = (map Inr rs, p, w)"
    "length rs = length tasks"
    "map (\<lambda>r. case r of Extracted t f d \<Rightarrow> t | Not_extracted t f e \<Rightarrow> t) rs = map ticker tasks"
    "success p + failed p
       = success (p0\<lparr>failed := failed p0 + 1\<rparr>) + failed (p0\<lparr>failed := failed p0 + 1\<rparr>)
         + length tasks"
    "failed p = failed (p0\<lparr>failed := failed p0 + 1\<rparr>)
         + length (filter (\<lambda>r. \<not> is_success r) rs)"
    using Cons.IH [of "p0\<lparr>failed := failed p0 + 1\<rparr>" w1] by blast
  show ?case
    by (rule exI [of _ "Not_extracted (ticker task) (html_path task) error # rs"])
      (use first rest in \<open>simp add: w1_def\<close>)
qed

lemma collect_10k_all:
  "collect_10k (map Inr rs) acc = Inr (acc @ rs)"
  by (induction rs arbitrary: acc) simp_all

text \<open>
  So a batch of extract_10k_v2.py always returns one record for each task, whatever
  happened to the others.
\<close>

lemma extract_all_10k_collects_all:
  "\<exists>rs p w. extract_all_10k_results lower loads tasks = (Inr rs, p, w)
     \<and> length rs = length tasks
     \<and> map (\<lambda>r. case r of Extracted t f d \<Rightarrow> t | Not_extracted t f e \<Rightarrow> t) rs = map ticker tasks
     \<and> failed p = length (filter (\<lambda>r. \<not> is_success r) rs)"
proof -
  obtain rs p w where
    "run_workers_10k lower loads tasks (\<lparr>success = 0, failed = 0\<rparr>, world0) = (map Inr rs, p, w)"
    "length rs = length tasks"
    "map (\<lambda>r. case r of Extracted t f d \<Rightarrow> t | Not_extracted t f e \<Rightarrow> t) rs = map ticker tasks"
    "failed p = failed \<lparr>success = 0, failed = 0\<rparr> + length (filter (\<lambda>r. \<not> is_success r) rs)"
    using run_workers_10k_outcomes [of lower loads tasks "\<lparr>success = 0, failed = 0\<rparr>" world0]
    by blast
  then show ?thesis
    by (simp add: extract_all_10k_results_def collect_10k_all)
qed

subsection \<open>dashboard/app.py\<close>

text \<open>
  In the main loop of the dashboard a worker that returned \<open>None\<close> adds nothing to the
  results and counts as completed; a worker that raised ends the loop, and the results
  collected so far are lost with it.
\<close>

lemma collect_pair_none:
  "collect_pair False n (Inr JNull # outcomes) c
     = collect_pair False n outcomes (c\<lparr>completed := completed c + 1\<rparr>)"
  by simp

lemma collect_pair_raised:
  "isl (collect_pair has_callback n (outcomes @ Inl e # later) c)"
  by (induction has_callback n outcomes c rule: collect_pair.induct) (auto simp: Let_def)

lemma call_bedrock_dashboard_unbound:
  assumes "responses 0 = Inl JSONDecodeError"
  shows "fst (call_bedrock_dashboard True loads responses w)
     = Inl (UnboundLocalError ''response_text'')"
  using assms
  by (simp add: call_bedrock_dashboard_def upt_rec handle_dashboard_def Let_def)

text \<open>
  C1 on the dashboard. A batch of three companies; the service answers the first and the
  third, and the body of its first response for the second is not JSON. The worker of
  the second company does not return \<open>None\<close>: it raises \<open>UnboundLocalError\<close>, the main
  loop raises it again at \<open>future.result()\<close>, and the batch returns no result at all,
  where the same batch without the second company returns the two results.
\<close>

theorem dashboard_gateway_failure_aborts_batch:
  "service_for (three_companies ! 1) 0 = Inl JSONDecodeError
   \<and> fst (analyze_company_regulation_pair demo_code demo_loads (three_companies ! 1) world0)
       = Inl (UnboundLocalError ''response_text'')
   \<and> analyze_regulation_with_bedrock demo_code demo_loads True three_companies
       = Inl (UnboundLocalError ''response_text'')
   \<and> analyze_regulation_with_bedrock demo_code demo_loads True
         [three_companies ! 0, three_companies ! 2]
       = Inr [JObj [(u ''a'', JInt 1)], JObj [(u ''a'', JInt 1)]]"
proof -
  have good: "call_bedrock_dashboard True demo_loads good_service w
      = (Inr (JObj [(u ''a'', JInt 1)]), invoke w)" for w
    using clean_unfenced_examples(2)
    by (simp add: call_bedrock_dashboard_def upt_rec good_service_def demo_loads_def Let_def)
  have broken: "call_bedrock_dashboard True demo_loads broken_body_service w
      = (Inl (UnboundLocalError ''response_text''), invoke w)" for w
    by (simp add: call_bedrock_dashboard_def upt_rec broken_body_service_def
        handle_dashboard_def Let_def)
  have t: "truthy (JObj [(u ''a'', JInt 1)])"
    by simp
  show ?thesis
    by (simp add: three_companies_def analyze_regulation_with_bedrock_def
        analyze_company_regulation_pair_def demo_code_def good broken t
        broken_body_service_def Let_def)
qed

section \<open>The summary and the output file\<close>

text \<open>
  In extract_10k.py a batch with at least one result that took some time prints its
  summary, with the numbers of successes and of failures, and writes every record to the
  output file.
\<close>

lemma extract_all_10k_epilogue_completes:
  assumes "results \<noteq> []" and "0 < elapsed_time"
  shows "\<exists>out'. extract_all_10k_epilogue results elapsed_time out = (Inr (), out')
     \<and> output_file out' = Some results
     \<and> Succes (length (filter is_success results)) (length results) \<in> set (stdout out')
     \<and> Echecs (length (filter (\<lambda>r. \<not> is_success r) results)) \<in> set (stdout out')
     \<and> Temps_total (elapsed_time / 60) \<in> set (stdout out')"
proof -
  have "length results - length (filter is_success results)
      = length (filter (\<lambda>r. \<not> is_success r) results)"
    using sum_length_filter_compl [of is_success results] by simp
  with assms show ?thesis
    by (simp add: extract_all_10k_epilogue_def py_divide_def say_def Let_def)
qed

text \<open>
  C2 on run_analysis.py. Whatever the results and the time taken, the end of
  \<open>run_full_analysis\<close> raises \<open>NameError\<close> at its summary line: the count of analyses
  is not printed and the output file is not written. So it is for a batch of one result.
\<close>

theorem run_full_analysis_epilogue_raises:
  "fst (run_full_analysis_epilogue results elapsed_time out) = Inl (NameError ''tasks'')
   \<and> output_file (snd (run_full_analysis_epilogue results elapsed_time out)) = output_file out
   \<and> stdout (snd (run_full_analysis_epilogue results elapsed_time out))
       = stdout out @ [Blank, Rule, Title ''STATISTIQUES'', Rule]
   \<and> run_full_analysis_epilogue one_precalculated_result 90 empty_report
       = (Inl (NameError ''tasks''),
          \<lparr>stdout = [Blank, Rule, Title ''STATISTIQUES'', Rule], output_file = None\<rparr>)"
  by (simp add: run_full_analysis_epilogue_def say_def empty_report_def Let_def)

end
